theory Spec2Isabelle
  imports Complex_Main
begin

section \<open>Order, cart and stock workflow of the e-commerce backend\<close>

text \<open>
  A shallow embedding of the order controller, the payment webhook helpers, the cart
  controller and the Order and Cart model methods.

  Conventions of the embedding.
  \<^item> JavaScript numbers that hold money are exact rationals; quantities and stock levels
    are integers (the request validators apply \<open>isInt\<close> and \<open>toInt\<close>). The source
    computes in doubles: the two agree where the double arithmetic is exact, as on the
    integer amounts of the examples below, and differ where a double is off the decimal
    it stands for (\<open>Math.round(1.005 * 100)\<close> is 100 in the source). No property below
    rests on a rounding of the second kind.
  \<^item> An ObjectId is the string \<open>toString()\<close> yields for it. The \<open>_id\<close> of an order is
    its position in the order collection. A cart is stored under its user (the schema
    makes \<open>user\<close> unique), and the operations on a loaded cart take that user along.
  \<^item> \<open>new Date()\<close> is the argument \<open>now\<close> of the operation (milliseconds), and
    \<open>Math.floor(Math.random() * 1000)\<close> its argument \<open>rnd\<close>.
  \<^item> A thrown error is the \<open>Inl\<close> of a sum; every controller returns its outcome
    together with the database it leaves behind, so that "nothing was written" is a
    statement about that second component.
  \<^item> \<open>save()\<close> and \<open>create()\<close> validate the document against its schema first; the
    \<open>pre('save')\<close> hooks of the schema run after a successful validation, and nothing
    is written after a failed one. The validators of the modelled fields are modelled.
    Fields no modelled function reads or writes (addresses, notes, tracking number,
    images) are left out and taken to satisfy the schema. \<open>findByIdAndUpdate\<close> runs no
    validator. Requests are handled one at a time.
  \<^item> The routes' middleware is modelled where a property rests on it (the rules of
    \<open>validateAddToCart\<close> and \<open>validateOrderCreation\<close> on quantities and items);
    authentication, the admin check of the status route and the rules on the format of
    ids are not.
\<close>

subsection \<open>Errors\<close>

text \<open>The error classes of \<open>errorHandler.js\<close>, \<open>Error\<close> and \<open>TypeError\<close> of the
  language, the answer of \<open>handleValidationErrors\<close> with its messages, and the
  validation error of the document store with the paths that failed (array indices left
  out).\<close>

datatype error =
    ValidationError string
  | NotFoundError string
  | ForbiddenError string
  | InsufficientStockError string int int
  | Error string
  | TypeError
  | ValidationFailed "string list"
  | MongooseValidationError "string list"

subsection \<open>Documents\<close>

type_synonym oid = string
type_synonym date = nat

record product =
  name :: string
  price :: rat
  stock :: int
  isActive :: bool

datatype order_status =
  Pending | Confirmed | Processing | Shipped | Delivered | Cancelled | Refunded

datatype payment_status =
  PayPending | PayCompleted | PayFailed | PayRefunded | PayCancelled

datatype payment_method = Stripe | Razorpay | Cod | BankTransfer

record order_item =
  oi_product :: oid
  oi_productName :: string
  oi_quantity :: int
  oi_price :: rat
  oi_total :: rat

record payment_info =
  pay_method :: payment_method
  transactionId :: "string option"
  paymentIntentId :: "string option"
  pay_status :: payment_status
  amount :: rat
  currency :: string
  paidAt :: "date option"
  refundedAt :: "date option"
  refundAmount :: rat

record history_entry =
  h_status :: order_status
  h_timestamp :: date
  h_note :: string

text \<open>The order number \<open>ORD-<timestamp>-<random>\<close> is kept as the pair of its two
  numbers; \<open>None\<close> is an order number that is not set.\<close>

record order =
  orderNumber :: "(nat \<times> nat) option"
  user :: oid
  items :: "order_item list"
  subtotal :: rat
  tax :: rat
  shippingCost :: rat
  discount :: rat
  totalAmount :: rat
  status :: order_status
  paymentInfo :: payment_info
  estimatedDelivery :: "date option"
  deliveredAt :: "date option"
  cancelledAt :: "date option"
  cancellationReason :: "string option"
  statusHistory :: "history_entry list"

text \<open>
  A cart line refers to its product. In the stored document the reference is an
  ObjectId. In a cart loaded through \<open>Cart.findByUser\<close> the path \<open>items.product\<close> is
  populated: the reference is the product document, or \<open>null\<close> when no product has
  that id. (\<open>toOrderItems\<close> reads \<open>item.product._id || item.product\<close> for that reason,
  and the cart test reads \<open>items[0].product._id\<close> from the answer of \<open>GET /api/cart\<close>.)
  A line pushed by \<open>addItem\<close> carries the plain id.
\<close>

datatype product_ref = ObjectId oid | Doc oid product | Null

record 'p cart_item =
  ci_product :: 'p
  ci_quantity :: int
  ci_price :: rat

record 'p cart =
  c_items :: "'p cart_item list"
  c_totalAmount :: rat
  c_totalItems :: int

record db =
  products :: "oid \<rightharpoonup> product"
  orders :: "order list"
  carts :: "oid \<rightharpoonup> oid cart"

record req_user =
  u_id :: oid
  u_role :: string

record order_request_item =
  ri_product :: oid
  ri_quantity :: int

subsection \<open>Rounding\<close>

text \<open>\<open>Math.round(y)\<close> is the integer nearest to \<open>y\<close>, halves going up.\<close>

definition Math_round :: "rat \<Rightarrow> int" where
  "Math_round y = \<lfloor>y + 1 / 2\<rfloor>"

text \<open>\<open>Math.round(x * 100) / 100\<close>, the repository's "round to 2 decimal places", on
  exact numbers.\<close>

definition round2 :: "rat \<Rightarrow> rat" where
  "round2 x = of_int (Math_round (x * 100)) / 100"

subsection \<open>Status names\<close>

fun status_name :: "order_status \<Rightarrow> string" where
  "status_name Pending = ''pending''"
| "status_name Confirmed = ''confirmed''"
| "status_name Processing = ''processing''"
| "status_name Shipped = ''shipped''"
| "status_name Delivered = ''delivered''"
| "status_name Cancelled = ''cancelled''"
| "status_name Refunded = ''refunded''"

definition validStatuses :: "order_status list" where
  "validStatuses = [Pending, Confirmed, Processing, Shipped, Delivered, Cancelled, Refunded]"

text \<open>\<open>validStatuses.includes(status)\<close> on the request's string, with the status it names.\<close>

definition parse_status :: "string \<Rightarrow> order_status option" where
  "parse_status s = find (\<lambda>t. status_name t = s) validStatuses"

subsection \<open>Order schema\<close>

text \<open>
  The validators of \<open>orderItemSchema\<close>, \<open>paymentInfoSchema\<close> and \<open>orderSchema\<close> on the
  modelled fields, each answering the paths that fail: a required string is not empty,
  \<open>quantity\<close> has \<open>min: 1\<close>, the amounts have \<open>min: 0\<close>, \<open>orderNumber\<close> is required,
  \<open>cancellationReason\<close> and the \<open>note\<close> of a history entry have \<open>maxLength: 200\<close>. (The
  statuses and the payment method are values of their enums by their types here.)
\<close>

definition order_item_invalid_paths :: "order_item \<Rightarrow> string list" where
  "order_item_invalid_paths it =
     (if oi_productName it = [] then [''items.productName''] else []) @
     (if oi_quantity it < 1 then [''items.quantity''] else []) @
     (if oi_price it < 0 then [''items.price''] else []) @
     (if oi_total it < 0 then [''items.total''] else [])"

definition payment_info_invalid_paths :: "payment_info \<Rightarrow> string list" where
  "payment_info_invalid_paths pinfo =
     (if amount pinfo < 0 then [''paymentInfo.amount''] else []) @
     (if currency pinfo = [] then [''paymentInfo.currency''] else []) @
     (if refundAmount pinfo < 0 then [''paymentInfo.refundAmount''] else [])"

definition history_entry_invalid_paths :: "history_entry \<Rightarrow> string list" where
  "history_entry_invalid_paths h =
     (if 200 < length (h_note h) then [''statusHistory.note''] else [])"

definition order_invalid_paths :: "order \<Rightarrow> string list" where
  "order_invalid_paths ord =
     (if orderNumber ord = None then [''orderNumber''] else []) @
     concat (map order_item_invalid_paths (items ord)) @
     (if subtotal ord < 0 then [''subtotal''] else []) @
     (if tax ord < 0 then [''tax''] else []) @
     (if shippingCost ord < 0 then [''shippingCost''] else []) @
     (if discount ord < 0 then [''discount''] else []) @
     (if totalAmount ord < 0 then [''totalAmount''] else []) @
     payment_info_invalid_paths (paymentInfo ord) @
     (case cancellationReason ord of
        None \<Rightarrow> []
      | Some r \<Rightarrow> if 200 < length r then [''cancellationReason''] else []) @
     concat (map history_entry_invalid_paths (statusHistory ord))"

text \<open>
  The validation \<open>save()\<close> starts with: the document passes, or the save rejects with
  the store's validation error and nothing is written. With the document that passed,
  the caller of \<open>save()\<close> replaces the stored one.
\<close>

definition order_validate :: "order \<Rightarrow> error + order" where
  "order_validate ord =
     (if order_invalid_paths ord = [] then Inr ord
      else Inl (MongooseValidationError (order_invalid_paths ord)))"

subsection \<open>Order model methods\<close>

text \<open>
  \<open>orderSchema.pre('save')\<close> on a new document: the order number is assigned, the
  history starts with the creation entry and the estimated delivery is seven days ahead.
\<close>

definition order_pre_save_new :: "date \<Rightarrow> nat \<Rightarrow> order \<Rightarrow> order" where
  "order_pre_save_new now rnd ord =
     ord\<lparr> orderNumber := Some (now, rnd),
          statusHistory := [\<lparr> h_status = status ord, h_timestamp = now, h_note = ''Order created'' \<rparr>],
          estimatedDelivery := Some (now + 7 * 24 * 60 * 60 * 1000) \<rparr>"

text \<open>
  \<open>Order.create(doc)\<close>: the new document is validated as the caller built it; the
  pre-save hook runs after that, and the document is appended to the collection. The
  result is the stored order with its id.
\<close>

definition Order_create :: "date \<Rightarrow> nat \<Rightarrow> order \<Rightarrow> db \<Rightarrow> error + (nat \<times> order) \<times> db" where
  "Order_create now rnd doc d =
     (case order_validate doc of
        Inl e \<Rightarrow> Inl e
      | Inr doc' \<Rightarrow>
          let ord = order_pre_save_new now rnd doc'
          in Inr ((length (orders d), ord), d\<lparr> orders := orders d @ [ord] \<rparr>))"

text \<open>The assignments of \<open>updateStatus(newStatus, note = '')\<close> for a status that
  differs from the current one, up to its \<open>save()\<close>.\<close>

definition updateStatus_assign :: "date \<Rightarrow> order_status \<Rightarrow> string \<Rightarrow> order \<Rightarrow> order" where
  "updateStatus_assign now newStatus note ord =
     (let previousStatus = status ord;
          o1 = ord\<lparr> status := newStatus \<rparr>;
          o2 = o1\<lparr> statusHistory := statusHistory o1 @
                 [\<lparr> h_status = newStatus, h_timestamp = now,
                    h_note = (if note \<noteq> [] then note
                              else ''Status changed from '' @ status_name previousStatus
                                     @ '' to '' @ status_name newStatus) \<rparr>] \<rparr>
      in if newStatus = Delivered then o2\<lparr> deliveredAt := Some now \<rparr>
         else if newStatus = Cancelled then o2\<lparr> cancelledAt := Some now \<rparr>
         else o2)"

text \<open>\<open>orderSchema.methods.updateStatus(newStatus, note = '')\<close>: the document itself
  for the status it has, and else the assignments and the save.\<close>

definition updateStatus :: "date \<Rightarrow> order_status \<Rightarrow> string \<Rightarrow> order \<Rightarrow> error + order" where
  "updateStatus now newStatus note ord =
     (if status ord = newStatus then Inr ord
      else order_validate (updateStatus_assign now newStatus note ord))"

text \<open>
  \<open>orderSchema.methods.updatePaymentStatus(status, transactionId = null, paidAt = null)\<close>.
  An empty transaction id is falsy, like \<open>null\<close>. The call of \<open>updateStatus\<close> is made
  on a pending order and is not awaited: its assignments are made at once. The method's
  own \<open>save()\<close> is not a branch here: the paths the method changes (a status of the
  enum, the id, a date, the fixed note) satisfy the schema, so it writes a stored order
  that satisfied the schema before.
\<close>

definition updatePaymentStatus ::
  "date \<Rightarrow> payment_status \<Rightarrow> string option \<Rightarrow> date option \<Rightarrow> order \<Rightarrow> order" where
  "updatePaymentStatus now st tid paid ord =
     (let o1 = ord\<lparr> paymentInfo := (paymentInfo ord)\<lparr> pay_status := st \<rparr> \<rparr>;
          o2 = (case tid of
                  None \<Rightarrow> o1
                | Some t \<Rightarrow> if t = [] then o1
                            else o1\<lparr> paymentInfo := (paymentInfo o1)\<lparr> transactionId := Some t \<rparr> \<rparr>)
      in if st = PayCompleted \<and> paidAt (paymentInfo o2) = None then
           let o3 = o2\<lparr> paymentInfo := (paymentInfo o2)
                        \<lparr> paidAt := Some (case paid of Some d \<Rightarrow> d | None \<Rightarrow> now) \<rparr> \<rparr>
           in if status o3 = Pending then updateStatus_assign now Confirmed ''Payment completed'' o3
              else o3
         else o2)"

text \<open>\<open>orderSchema.methods.cancelOrder(reason = '')\<close>: the refusal of the three
  statuses, the assignments, and the save.\<close>

definition order_cancelOrder :: "date \<Rightarrow> string \<Rightarrow> order \<Rightarrow> error + order" where
  "order_cancelOrder now reason ord =
     (if status ord \<in> set [Delivered, Cancelled, Refunded]
      then Inl (Error (''Cannot cancel order with status: '' @ status_name (status ord)))
      else
        let o1 = ord\<lparr> status := Cancelled, cancelledAt := Some now,
                      cancellationReason := Some reason \<rparr>;
            o2 = o1\<lparr> statusHistory := statusHistory o1 @
                   [\<lparr> h_status = Cancelled, h_timestamp = now,
                      h_note = (if reason \<noteq> [] then reason else ''Order cancelled'') \<rparr>] \<rparr>
        in if pay_status (paymentInfo o2) = PayCompleted
           then order_validate (o2\<lparr> paymentInfo := (paymentInfo o2)
                          \<lparr> pay_status := PayRefunded, refundedAt := Some now,
                            refundAmount := amount (paymentInfo o2) \<rparr> \<rparr>)
           else order_validate o2)"

subsection \<open>Stock updates\<close>

text \<open>\<open>Product.findByIdAndUpdate(id, { $inc: { stock: n } })\<close>: no document, no change;
  update validators are not run, so the schema's \<open>min: 0\<close> is not checked here.\<close>

definition inc_stock :: "(oid \<rightharpoonup> product) \<Rightarrow> oid \<Rightarrow> int \<Rightarrow> (oid \<rightharpoonup> product)" where
  "inc_stock ps pid n =
     (case ps pid of None \<Rightarrow> ps | Some p \<Rightarrow> ps(pid \<mapsto> p\<lparr> stock := stock p + n \<rparr>))"

subsection \<open>Cart model methods\<close>

text \<open>\<open>cartSchema.methods.calculateTotals()\<close>.\<close>

definition cart_calculateTotals :: "'p cart \<Rightarrow> 'p cart" where
  "cart_calculateTotals c =
     (let c1 = c\<lparr> c_totalItems := foldl (\<lambda>total item. total + ci_quantity item) 0 (c_items c) \<rparr>;
          c2 = c1\<lparr> c_totalAmount :=
                 foldl (\<lambda>total item. total + ci_price item * of_int (ci_quantity item)) 0 (c_items c1) \<rparr>
      in c2\<lparr> c_totalAmount := round2 (c_totalAmount c2) \<rparr>)"

text \<open>
  \<open>.populate('items.product', ...)\<close>: every reference is replaced by the product
  document with that id, or by \<open>null\<close> when there is none.
\<close>

definition populate :: "(oid \<rightharpoonup> product) \<Rightarrow> oid \<Rightarrow> product_ref" where
  "populate ps i = (case ps i of None \<Rightarrow> Null | Some p \<Rightarrow> Doc i p)"

definition populate_cart :: "(oid \<rightharpoonup> product) \<Rightarrow> oid cart \<Rightarrow> product_ref cart" where
  "populate_cart ps c =
     \<lparr> c_items = map (\<lambda>it. \<lparr> ci_product = populate ps (ci_product it),
                              ci_quantity = ci_quantity it, ci_price = ci_price it \<rparr>) (c_items c),
       c_totalAmount = c_totalAmount c, c_totalItems = c_totalItems c \<rparr>"

text \<open>\<open>cartSchema.statics.findByUser(userId)\<close>: the user's cart, populated.\<close>

definition findByUser :: "db \<Rightarrow> oid \<Rightarrow> product_ref cart option" where
  "findByUser d uid = map_option (populate_cart (products d)) (carts d uid)"

text \<open>
  What \<open>save()\<close> writes for a reference: the id, also for a populated document. The
  schema requires the product, so a line whose reference is \<open>null\<close> cannot be written.
\<close>

fun depopulate :: "product_ref \<Rightarrow> oid option" where
  "depopulate (ObjectId i) = Some i"
| "depopulate (Doc i p) = Some i"
| "depopulate Null = None"

fun depopulate_items :: "product_ref cart_item list \<Rightarrow> oid cart_item list option" where
  "depopulate_items [] = Some []"
| "depopulate_items (it # its) =
     (case depopulate (ci_product it) of
        None \<Rightarrow> None
      | Some i \<Rightarrow>
          (case depopulate_items its of
             None \<Rightarrow> None
           | Some rest \<Rightarrow>
               Some (\<lparr> ci_product = i, ci_quantity = ci_quantity it, ci_price = ci_price it \<rparr> # rest)))"

text \<open>
  The validators of \<open>cartItemSchema\<close> and \<open>cartSchema\<close>: \<open>product\<close> is required,
  \<open>quantity\<close> has \<open>min: 1\<close>, \<open>price\<close>, \<open>totalAmount\<close> and \<open>totalItems\<close> have
  \<open>min: 0\<close>.
\<close>

definition cart_item_invalid_paths :: "product_ref cart_item \<Rightarrow> string list" where
  "cart_item_invalid_paths it =
     (if ci_product it = Null then [''items.product''] else []) @
     (if ci_quantity it < 1 then [''items.quantity''] else []) @
     (if ci_price it < 0 then [''items.price''] else [])"

definition cart_invalid_paths :: "product_ref cart \<Rightarrow> string list" where
  "cart_invalid_paths c =
     concat (map cart_item_invalid_paths (c_items c)) @
     (if c_totalAmount c < 0 then [''totalAmount''] else []) @
     (if c_totalItems c < 0 then [''totalItems''] else [])"

text \<open>
  \<open>cart.save()\<close>: the document is validated as it is when \<open>save()\<close> is called; then the
  pre-save hook recomputes the totals, and the document replaces the stored cart of its
  user. It returns the document as saved.
\<close>

definition cart_save :: "oid \<Rightarrow> product_ref cart \<Rightarrow> db \<Rightarrow> error + product_ref cart \<times> db" where
  "cart_save uid c d =
     (if cart_invalid_paths c \<noteq> [] then Inl (MongooseValidationError (cart_invalid_paths c))
      else
        let c1 = cart_calculateTotals c in
        case depopulate_items (c_items c1) of
          None \<Rightarrow> Inl (MongooseValidationError [''items.product''])
        | Some its \<Rightarrow>
            Inr (c1, d\<lparr> carts := (carts d)(uid \<mapsto>
                   \<lparr> c_items = its, c_totalAmount = c_totalAmount c1,
                     c_totalItems = c_totalItems c1 \<rparr>) \<rparr>))"

text \<open>\<open>cartSchema.methods.clearCart()\<close>.\<close>

definition clearCart :: "oid \<Rightarrow> product_ref cart \<Rightarrow> db \<Rightarrow> error + product_ref cart \<times> db" where
  "clearCart uid c d = cart_save uid (c\<lparr> c_items := [], c_totalAmount := 0, c_totalItems := 0 \<rparr>) d"

text \<open>
  \<open>item.product.toString()\<close>. An ObjectId prints as its id. A populated product
  document prints as the dump of its fields, which is never the text of an id and is the
  same for two documents exactly when they agree in id and fields. \<open>null\<close> has no
  \<open>toString\<close>: the call throws a TypeError.
\<close>

datatype js_string = IdString oid | DocDump oid product

fun toString :: "product_ref \<Rightarrow> error + js_string" where
  "toString (ObjectId i) = Inr (IdString i)"
| "toString (Doc i p) = Inr (DocDump i p)"
| "toString Null = Inl TypeError"

text \<open>\<open>this.items.findIndex(item => item.product.toString() === productId.toString())\<close>;
  \<open>None\<close> is the \<open>-1\<close> of JavaScript.\<close>

fun findIndex_product :: "product_ref cart_item list \<Rightarrow> oid \<Rightarrow> error + nat option" where
  "findIndex_product [] productId = Inr None"
| "findIndex_product (item # rest) productId =
     (case toString (ci_product item) of
        Inl e \<Rightarrow> Inl e
      | Inr s \<Rightarrow>
          if s = IdString productId then Inr (Some 0)
          else (case findIndex_product rest productId of
                  Inl e \<Rightarrow> Inl e
                | Inr r \<Rightarrow> Inr (map_option Suc r)))"

text \<open>\<open>cartSchema.methods.addItem(productId, quantity = 1, price)\<close>.\<close>

definition addItem ::
  "oid \<Rightarrow> oid \<Rightarrow> int \<Rightarrow> rat \<Rightarrow> product_ref cart \<Rightarrow> db \<Rightarrow> error + product_ref cart \<times> db" where
  "addItem uid productId quantity price' c d =
     (case findIndex_product (c_items c) productId of
        Inl e \<Rightarrow> Inl e
      | Inr (Some existingItemIndex) \<Rightarrow>
          let item = c_items c ! existingItemIndex;
              item' = item\<lparr> ci_quantity := ci_quantity item + quantity, ci_price := price' \<rparr>
          in cart_save uid
               (cart_calculateTotals (c\<lparr> c_items := (c_items c)[existingItemIndex := item'] \<rparr>)) d
      | Inr None \<Rightarrow>
          cart_save uid
            (cart_calculateTotals
               (c\<lparr> c_items := c_items c @
                     [\<lparr> ci_product = ObjectId productId, ci_quantity = quantity, ci_price = price' \<rparr>] \<rparr>)) d)"

text \<open>\<open>Product.findById(item.product)\<close>: a populated document is cast to its id, and
  \<open>findById(null)\<close> finds nothing.\<close>

fun findById_ref :: "(oid \<rightharpoonup> product) \<Rightarrow> product_ref \<Rightarrow> product option" where
  "findById_ref ps (ObjectId i) = ps i"
| "findById_ref ps (Doc i p) = ps i"
| "findById_ref ps Null = None"

text \<open>The entries of \<open>validationErrors\<close>. The message is kept as its kind, with the
  numbers the text of "Insufficient stock" quotes.\<close>

datatype cart_problem =
    ProductNotFound
  | ProductNoLongerAvailable
  | InsufficientStock int int

record validation_error =
  ve_productId :: product_ref
  ve_productName :: "string option"
  ve_error :: cart_problem

text \<open>
  The loop of \<open>validateItems\<close>: the lines (a stale price is refreshed in place) and the
  errors collected so far are its accumulators. The \<open>catch\<close> of the loop body answers a
  failing store, which is not modelled.
\<close>

fun validateItems_loop ::
  "(oid \<rightharpoonup> product) \<Rightarrow> product_ref cart_item list \<Rightarrow> product_ref cart_item list
     \<Rightarrow> validation_error list \<Rightarrow> product_ref cart_item list \<times> validation_error list" where
  "validateItems_loop ps [] done validationErrors = (done, validationErrors)"
| "validateItems_loop ps (item # rest) done validationErrors =
     (case findById_ref ps (ci_product item) of
        None \<Rightarrow>
          validateItems_loop ps rest (done @ [item])
            (validationErrors @
               [\<lparr> ve_productId = ci_product item, ve_productName = None,
                  ve_error = ProductNotFound \<rparr>])
      | Some p \<Rightarrow>
          if \<not> isActive p then
            validateItems_loop ps rest (done @ [item])
              (validationErrors @
                 [\<lparr> ve_productId = ci_product item, ve_productName = Some (name p),
                    ve_error = ProductNoLongerAvailable \<rparr>])
          else if stock p < ci_quantity item then
            validateItems_loop ps rest (done @ [item])
              (validationErrors @
                 [\<lparr> ve_productId = ci_product item, ve_productName = Some (name p),
                    ve_error = InsufficientStock (stock p) (ci_quantity item) \<rparr>])
          else if ci_price item \<noteq> price p then
            validateItems_loop ps rest (done @ [item\<lparr> ci_price := price p \<rparr>]) validationErrors
          else validateItems_loop ps rest (done @ [item]) validationErrors)"

text \<open>\<open>cartSchema.methods.validateItems()\<close>: the cart as the method leaves it in memory,
  the errors, and the database (written only when there is no error).\<close>

definition validateItems ::
  "oid \<Rightarrow> product_ref cart \<Rightarrow> db \<Rightarrow> error + product_ref cart \<times> validation_error list \<times> db" where
  "validateItems uid c d =
     (case validateItems_loop (products d) (c_items c) [] [] of
        (its, validationErrors) \<Rightarrow>
          let c1 = c\<lparr> c_items := its \<rparr> in
          if validationErrors = [] then
            (case cart_save uid (cart_calculateTotals c1) d of
               Inl e \<Rightarrow> Inl e
             | Inr (c2, d') \<Rightarrow> Inr (c2, validationErrors, d'))
          else Inr (c1, validationErrors, d))"

text \<open>\<open>cartSchema.methods.getPopulatedCart()\<close>: the references are resolved again.\<close>

definition getPopulatedCart :: "db \<Rightarrow> product_ref cart \<Rightarrow> product_ref cart" where
  "getPopulatedCart d c =
     c\<lparr> c_items := map (\<lambda>it. it\<lparr> ci_product :=
            (case depopulate (ci_product it) of None \<Rightarrow> Null
             | Some i \<Rightarrow> populate (products d) i) \<rparr>) (c_items c) \<rparr>"

text \<open>\<open>cartSchema.methods.toOrderItems()\<close>; \<open>item.product._id || item.product\<close> is the id
  of a populated document and of a plain id, and throws on \<open>null\<close>.\<close>

record cart_order_item =
  coi_product :: oid
  coi_quantity :: int
  coi_price :: rat
  coi_total :: rat

fun toOrderItems :: "product_ref cart_item list \<Rightarrow> error + cart_order_item list" where
  "toOrderItems [] = Inr []"
| "toOrderItems (item # rest) =
     (case depopulate (ci_product item) of
        None \<Rightarrow> Inl TypeError
      | Some i \<Rightarrow>
          (case toOrderItems rest of
             Inl e \<Rightarrow> Inl e
           | Inr r \<Rightarrow>
               Inr (\<lparr> coi_product = i, coi_quantity = ci_quantity item, coi_price = ci_price item,
                      coi_total = ci_price item * of_int (ci_quantity item) \<rparr> # r)))"

subsection \<open>Order controller\<close>

text \<open>
  The checks the first loop of \<open>createOrder\<close> makes on one requested line: the product
  exists, is active, and has the requested quantity in stock. The answer is the product
  or the error thrown.
\<close>

definition createOrder_check_item :: "(oid \<rightharpoonup> product) \<Rightarrow> order_request_item \<Rightarrow> error + product" where
  "createOrder_check_item ps item =
     (case ps (ri_product item) of
        None \<Rightarrow> Inl (NotFoundError (''Product with ID '' @ ri_product item))
      | Some p \<Rightarrow>
          if \<not> isActive p
          then Inl (ValidationError (''Product '' @ name p @ '' is not available''))
          else if stock p < ri_quantity item
          then Inl (InsufficientStockError (name p) (stock p) (ri_quantity item))
          else Inr p)"

text \<open>
  The first loop of \<open>createOrder\<close>: every requested line is looked up and checked, in
  request order; \<open>subtotal\<close> and \<open>orderItems\<close> are the loop's accumulators. The first
  line that fails throws.
\<close>

fun createOrder_check ::
  "(oid \<rightharpoonup> product) \<Rightarrow> order_request_item list \<Rightarrow> rat \<Rightarrow> order_item list
     \<Rightarrow> error + rat \<times> order_item list" where
  "createOrder_check ps [] subtotal' orderItems = Inr (subtotal', orderItems)"
| "createOrder_check ps (item # rest) subtotal' orderItems =
     (case createOrder_check_item ps item of
        Inl e \<Rightarrow> Inl e
      | Inr p \<Rightarrow>
          let itemTotal = price p * of_int (ri_quantity item)
          in createOrder_check ps rest (subtotal' + itemTotal)
               (orderItems @ [\<lparr> oi_product = ri_product item, oi_productName = name p,
                                 oi_quantity = ri_quantity item, oi_price = price p,
                                 oi_total = itemTotal \<rparr>]))"

text \<open>The second loop: one \<open>$inc\<close> of \<open>-item.quantity\<close> per requested line.\<close>

fun createOrder_decrement ::
  "(oid \<rightharpoonup> product) \<Rightarrow> order_request_item list \<Rightarrow> (oid \<rightharpoonup> product)" where
  "createOrder_decrement ps [] = ps"
| "createOrder_decrement ps (item # rest) =
     createOrder_decrement (inc_stock ps (ri_product item) (- ri_quantity item)) rest"

text \<open>
  \<open>createOrder\<close>, from the request body's \<open>items\<close> (\<open>None\<close> when the body has none),
  \<open>paymentInfo.method\<close> and \<open>paymentInfo.currency\<close> (the body has a \<open>paymentInfo\<close>, as
  the route's validation requires). The document handed to
  \<open>Order.create\<close> carries no order number: the controller sets none, and the schema's
  pre-save hook, which would, runs after the validation. The result is the new order
  with its id. Primed names are the controller's local constants.
\<close>

definition createOrder ::
  "req_user \<Rightarrow> order_request_item list option \<Rightarrow> payment_method \<Rightarrow> string option \<Rightarrow> date \<Rightarrow> nat
     \<Rightarrow> db \<Rightarrow> (error + nat \<times> order) \<times> db" where
  "createOrder usr items' pm cur now rnd d =
     (case items' of
        None \<Rightarrow> (Inl (ValidationError ''Order must contain at least one item''), d)
      | Some its \<Rightarrow>
          if its = [] then (Inl (ValidationError ''Order must contain at least one item''), d)
          else
            case createOrder_check (products d) its 0 [] of
              Inl e \<Rightarrow> (Inl e, d)
            | Inr (subtotal', orderItems) \<Rightarrow>
                let tax' = subtotal' * (1 / 10);
                    shippingCost' = (if subtotal' > 500 then 0 else 50);
                    discount' = 0;
                    totalAmount' = subtotal' + tax' + shippingCost' - discount';
                    doc =
                      \<lparr> orderNumber = None,
                        user = u_id usr, items = orderItems, subtotal = subtotal', tax = tax',
                        shippingCost = shippingCost', discount = discount',
                        totalAmount = totalAmount', status = Pending,
                        paymentInfo =
                          \<lparr> pay_method = pm, transactionId = None, paymentIntentId = None,
                            pay_status = PayPending, amount = totalAmount',
                            currency = (case cur of None \<Rightarrow> ''INR''
                                        | Some c \<Rightarrow> if c = [] then ''INR'' else c),
                            paidAt = None, refundedAt = None, refundAmount = 0 \<rparr>,
                        estimatedDelivery = None, deliveredAt = None, cancelledAt = None,
                        cancellationReason = None, statusHistory = [] \<rparr>
                in (case Order_create now rnd doc d of
                      Inl e \<Rightarrow> (Inl e, d)
                    | Inr ((n, ord), d1) \<Rightarrow>
                        let d2 = d1\<lparr> products := createOrder_decrement (products d1) its \<rparr>
                        in (case findByUser d2 (u_id usr) of
                              None \<Rightarrow> (Inr (n, ord), d2)
                            | Some cart \<Rightarrow>
                                (case clearCart (u_id usr) cart d2 of
                                   Inl e \<Rightarrow> (Inl e, d2)
                                 | Inr (c, d3) \<Rightarrow> (Inr (n, ord), d3)))))"

text \<open>The table \<open>invalidTransitions\<close> of \<open>updateOrderStatus\<close>; a status without an
  entry reads \<open>undefined\<close>.\<close>

fun invalidTransitions :: "order_status \<Rightarrow> order_status list option" where
  "invalidTransitions Delivered = Some [Pending, Confirmed, Processing]"
| "invalidTransitions Cancelled = Some [Delivered, Shipped]"
| "invalidTransitions Refunded = Some [Pending, Confirmed, Processing]"
| "invalidTransitions s = None"

definition transition_forbidden :: "order_status \<Rightarrow> order_status \<Rightarrow> bool" where
  "transition_forbidden cur new =
     (case invalidTransitions cur of None \<Rightarrow> False | Some ts \<Rightarrow> new \<in> set ts)"

text \<open>\<open>updateOrderStatus\<close>, from \<open>req.params.id\<close> and the body's \<open>status\<close> and \<open>note\<close>
  (an absent note is the empty string).\<close>

definition updateOrderStatus ::
  "nat \<Rightarrow> string \<Rightarrow> string \<Rightarrow> date \<Rightarrow> db \<Rightarrow> (error + order) \<times> db" where
  "updateOrderStatus oid st note now d =
     (case parse_status st of
        None \<Rightarrow>
          (Inl (ValidationError (''Invalid status. Valid statuses are: '' @
             ''pending, confirmed, processing, shipped, delivered, cancelled, refunded'')), d)
      | Some newStatus \<Rightarrow>
          if \<not> oid < length (orders d) then (Inl (NotFoundError ''Order''), d)
          else
            let ord = orders d ! oid in
            if transition_forbidden (status ord) newStatus
            then (Inl (ValidationError (''Cannot change status from '' @ status_name (status ord)
                         @ '' to '' @ st)), d)
            else
              case updateStatus now newStatus note ord of
                Inl e \<Rightarrow> (Inl e, d)
              | Inr ord' \<Rightarrow> (Inr ord', d\<lparr> orders := (orders d)[oid := ord'] \<rparr>))"

text \<open>The stock loop of \<open>cancelOrder\<close>: one \<open>$inc\<close> of \<open>item.quantity\<close> per order line.\<close>

fun cancelOrder_restore :: "(oid \<rightharpoonup> product) \<Rightarrow> order_item list \<Rightarrow> (oid \<rightharpoonup> product)" where
  "cancelOrder_restore ps [] = ps"
| "cancelOrder_restore ps (item # rest) =
     cancelOrder_restore (inc_stock ps (oi_product item) (oi_quantity item)) rest"

definition nonCancellableStatuses :: "order_status list" where
  "nonCancellableStatuses = [Delivered, Cancelled, Refunded, Shipped]"

text \<open>\<open>cancelOrder\<close> of the controller, from \<open>req.user\<close>, \<open>req.params.id\<close> and the
  body's \<open>reason\<close> (an absent reason is the empty string).\<close>

definition cancelOrder ::
  "req_user \<Rightarrow> nat \<Rightarrow> string \<Rightarrow> date \<Rightarrow> db \<Rightarrow> (error + order) \<times> db" where
  "cancelOrder usr oid reason now d =
     (if \<not> oid < length (orders d) then (Inl (NotFoundError ''Order''), d)
      else
        let ord = orders d ! oid in
        if user ord \<noteq> u_id usr \<and> u_role usr \<noteq> ''admin''
        then (Inl (ForbiddenError ''Access denied. You can only cancel your own orders''), d)
        else if status ord \<in> set nonCancellableStatuses
        then (Inl (ValidationError (''Cannot cancel order with status: '' @ status_name (status ord))), d)
        else
          case order_cancelOrder now reason ord of
            Inl e \<Rightarrow> (Inl e, d)
          | Inr ord' \<Rightarrow>
              let d1 = d\<lparr> orders := (orders d)[oid := ord'] \<rparr>;
                  d2 = d1\<lparr> products := cancelOrder_restore (products d1) (items ord') \<rparr>
              in (Inr ord', d2))"

subsection \<open>Payment controller\<close>



subsection \<open>Cart controller\<close>

text \<open>
  The test of the filter in \<open>getCart\<close>:
  \<open>validationErrors.some(error => error.productId.toString() === item.product.toString())\<close>.
  The left \<open>toString\<close> is called first; \<open>some\<close> stops at the first match.
\<close>

fun some_error_matches :: "validation_error list \<Rightarrow> product_ref cart_item \<Rightarrow> error + bool" where
  "some_error_matches [] item = Inr False"
| "some_error_matches (err # rest) item =
     (case toString (ve_productId err) of
        Inl e \<Rightarrow> Inl e
      | Inr s1 \<Rightarrow>
          (case toString (ci_product item) of
             Inl e \<Rightarrow> Inl e
           | Inr s2 \<Rightarrow> if s1 = s2 then Inr True else some_error_matches rest item))"

text \<open>\<open>cart.items.filter(item => !validationErrors.some(...))\<close>.\<close>

fun filter_valid ::
  "validation_error list \<Rightarrow> product_ref cart_item list \<Rightarrow> error + product_ref cart_item list" where
  "filter_valid validationErrors [] = Inr []"
| "filter_valid validationErrors (item # rest) =
     (case some_error_matches validationErrors item of
        Inl e \<Rightarrow> Inl e
      | Inr m \<Rightarrow>
          (case filter_valid validationErrors rest of
             Inl e \<Rightarrow> Inl e
           | Inr kept \<Rightarrow> Inr (if m then kept else item # kept)))"

record cart_response =
  r_cart :: "product_ref cart"
  r_warnings :: "validation_error list option"

text \<open>\<open>getCart\<close>, from \<open>req.user\<close>: the response and the database the read leaves.\<close>

definition getCart :: "req_user \<Rightarrow> db \<Rightarrow> (error + cart_response) \<times> db" where
  "getCart usr d =
     (case findByUser d (u_id usr) of
        None \<Rightarrow>
          (Inr \<lparr> r_cart = \<lparr> c_items = [], c_totalAmount = 0, c_totalItems = 0 \<rparr>,
                 r_warnings = None \<rparr>, d)
      | Some cart \<Rightarrow>
          (case validateItems (u_id usr) cart d of
             Inl e \<Rightarrow> (Inl e, d)
           | Inr (cart1, validationErrors, d1) \<Rightarrow>
               if validationErrors \<noteq> [] then
                 (case filter_valid validationErrors (c_items cart1) of
                    Inl e \<Rightarrow> (Inl e, d1)
                  | Inr kept \<Rightarrow>
                      (case cart_save (u_id usr) (cart1\<lparr> c_items := kept \<rparr>) d1 of
                         Inl e \<Rightarrow> (Inl e, d1)
                       | Inr (cart2, d2) \<Rightarrow>
                           (Inr \<lparr> r_cart = getPopulatedCart d2 cart2,
                                  r_warnings = Some validationErrors \<rparr>, d2)))
               else (Inr \<lparr> r_cart = getPopulatedCart d1 cart1, r_warnings = None \<rparr>, d1)))"

text \<open>\<open>cartSchema.statics.findOrCreateCart(userId)\<close>.\<close>

definition findOrCreateCart :: "oid \<Rightarrow> db \<Rightarrow> error + product_ref cart \<times> db" where
  "findOrCreateCart uid d =
     (case findByUser d uid of
        Some cart \<Rightarrow> Inr (cart, d)
      | None \<Rightarrow> cart_save uid \<lparr> c_items = [], c_totalAmount = 0, c_totalItems = 0 \<rparr> d)"

text \<open>\<open>addToCart\<close>, from \<open>req.user\<close> and the body's \<open>productId\<close> and \<open>quantity\<close>.\<close>

definition addToCart :: "req_user \<Rightarrow> oid \<Rightarrow> int \<Rightarrow> db \<Rightarrow> (error + product_ref cart) \<times> db" where
  "addToCart usr productId quantity d =
     (case products d productId of
        None \<Rightarrow> (Inl (NotFoundError ''Product''), d)
      | Some p \<Rightarrow>
          if \<not> isActive p then (Inl (ValidationError ''Product is not available''), d)
          else if stock p < quantity
          then (Inl (InsufficientStockError (name p) (stock p) quantity), d)
          else
            (case findOrCreateCart (u_id usr) d of
               Inl e \<Rightarrow> (Inl e, d)
             | Inr (cart, d1) \<Rightarrow>
                 (case findIndex_product (c_items cart) productId of
                    Inl e \<Rightarrow> (Inl e, d1)
                  | Inr existingItem \<Rightarrow>
                      let totalRequestedQuantity =
                            (case existingItem of
                               Some i \<Rightarrow> ci_quantity (c_items cart ! i) + quantity
                             | None \<Rightarrow> quantity)
                      in if stock p < totalRequestedQuantity
                         then (Inl (InsufficientStockError (name p) (stock p) totalRequestedQuantity), d1)
                         else
                           (case addItem (u_id usr) productId quantity (price p) cart d1 of
                              Inl e \<Rightarrow> (Inl e, d1)
                            | Inr (cart', d2) \<Rightarrow> (Inr (getPopulatedCart d2 cart'), d2)))))"

text \<open>
  \<open>validateAddToCart\<close>, the rule on \<open>quantity\<close>: optional, else an integer from 1 to 99.
  The rules on the format of \<open>productId\<close> hold of every \<open>oid\<close> here.
\<close>

definition validateAddToCart :: "int option \<Rightarrow> string list" where
  "validateAddToCart quantity =
     (case quantity of
        None \<Rightarrow> []
      | Some n \<Rightarrow> if 1 \<le> n \<and> n \<le> 99 then [] else [''Quantity must be between 1 and 99''])"

text \<open>
  The route \<open>POST /api/cart/add\<close>: \<open>validateAddToCart\<close>, then \<open>addToCart\<close> with the
  default of 1 for an absent quantity. \<open>handleValidationErrors\<close> answers a failed rule
  itself, and the controller does not run.
\<close>

definition post_cart_add ::
  "req_user \<Rightarrow> oid \<Rightarrow> int option \<Rightarrow> db \<Rightarrow> (error + product_ref cart) \<times> db" where
  "post_cart_add usr productId quantity d =
     (if validateAddToCart quantity \<noteq> []
      then (Inl (ValidationFailed (validateAddToCart quantity)), d)
      else addToCart usr productId (case quantity of None \<Rightarrow> 1 | Some n \<Rightarrow> n) d)"

subsection \<open>Sequences of requests\<close>

text \<open>
  The rules of \<open>validateOrderCreation\<close> on \<open>items\<close>: an array of at least one element
  whose quantities are integers of at least 1. (Its rules on the format of ids, on the
  address and on the payment method are not modelled.)
\<close>

definition validateOrderCreation :: "order_request_item list option \<Rightarrow> string list" where
  "validateOrderCreation items' =
     (case items' of
        None \<Rightarrow> [''Order must contain at least one item'']
      | Some its \<Rightarrow>
          (if its = [] then [''Order must contain at least one item''] else []) @
          concat (map (\<lambda>it. if ri_quantity it < 1 then [''Item quantity must be at least 1'']
                             else []) its))"

text \<open>
  The route \<open>POST /api/orders\<close>: \<open>validateOrderCreation\<close>, then \<open>createOrder\<close>.
  \<open>handleValidationErrors\<close> answers a failed rule itself, and the controller does not
  run.
\<close>

definition post_orders ::
  "req_user \<Rightarrow> order_request_item list option \<Rightarrow> payment_method \<Rightarrow> string option \<Rightarrow> date \<Rightarrow> nat
     \<Rightarrow> db \<Rightarrow> (error + nat \<times> order) \<times> db" where
  "post_orders usr items' pm cur now rnd d =
     (if validateOrderCreation items' \<noteq> []
      then (Inl (ValidationFailed (validateOrderCreation items')), d)
      else createOrder usr items' pm cur now rnd d)"

text \<open>
  The two requests that change stock, \<open>POST /api/orders\<close> and
  \<open>PUT /api/orders/:id/cancel\<close>, and the database after a list of them, each handled at
  its own time, one after the other; a request that fails leaves what it had written
  before it failed.
\<close>

datatype request =
    CreateOrder req_user "order_request_item list option" payment_method "string option" nat
  | CancelOrder req_user nat string

fun handle :: "date \<Rightarrow> request \<Rightarrow> db \<Rightarrow> db" where
  "handle now (CreateOrder usr items' pm cur rnd) d = snd (post_orders usr items' pm cur now rnd d)"
| "handle now (CancelOrder usr oid reason) d = snd (cancelOrder usr oid reason now d)"

fun run :: "(date \<times> request) list \<Rightarrow> db \<Rightarrow> db" where
  "run [] d = d"
| "run ((now, r) # rs) d = run rs (handle now r d)"


subsection \<open>Example data\<close>

definition ex_usr :: req_user where
  "ex_usr = \<lparr> u_id = ''u1'', u_role = ''user'' \<rparr>"

definition line :: "oid \<Rightarrow> int \<Rightarrow> order_request_item" where
  "line pid q = \<lparr> ri_product = pid, ri_quantity = q \<rparr>"

definition widget :: "rat \<Rightarrow> int \<Rightarrow> bool \<Rightarrow> product" where
  "widget pr st act = \<lparr> name = ''Widget'', price = pr, stock = st, isActive = act \<rparr>"

definition gadget :: "rat \<Rightarrow> int \<Rightarrow> bool \<Rightarrow> product" where
  "gadget pr st act = \<lparr> name = ''Gadget'', price = pr, stock = st, isActive = act \<rparr>"

text \<open>A shop with one product, and one with two; no orders, no carts.\<close>

definition db_widget :: "rat \<Rightarrow> int \<Rightarrow> db" where
  "db_widget pr st =
     \<lparr> products = [''p1'' \<mapsto> widget pr st True], orders = [], carts = Map.empty \<rparr>"

definition db_two :: db where
  "db_two =
     \<lparr> products = [''p1'' \<mapsto> widget 10 5 True, ''p2'' \<mapsto> gadget 20 1 True],
       orders = [], carts = Map.empty \<rparr>"

text \<open>A shop with one order of user \<open>u1\<close> for two Widgets, paid through the intent
  \<open>pi_1\<close>, in a given order status and payment state; three Widgets are in stock.\<close>

definition ex_order :: "order_status \<Rightarrow> payment_status \<Rightarrow> date option \<Rightarrow> order" where
  "ex_order st ps paid =
     \<lparr> orderNumber = Some (0, 7),
       user = ''u1'',
       items = [\<lparr> oi_product = ''p1'', oi_productName = ''Widget'', oi_quantity = 2,
                  oi_price = 10, oi_total = 20 \<rparr>],
       subtotal = 20, tax = 2, shippingCost = 50, discount = 0, totalAmount = 72,
       status = st,
       paymentInfo =
         \<lparr> pay_method = Stripe, transactionId = None, paymentIntentId = Some ''pi_1'',
           pay_status = ps, amount = 72, currency = ''INR'', paidAt = paid,
           refundedAt = None, refundAmount = 0 \<rparr>,
       estimatedDelivery = Some 604800000, deliveredAt = None, cancelledAt = None,
       cancellationReason = None,
       statusHistory = [\<lparr> h_status = Pending, h_timestamp = 0, h_note = ''Order created'' \<rparr>] \<rparr>"

definition db_order :: "order_status \<Rightarrow> payment_status \<Rightarrow> date option \<Rightarrow> db" where
  "db_order st ps paid =
     \<lparr> products = [''p1'' \<mapsto> widget 10 3 True], orders = [ex_order st ps paid],
       carts = Map.empty \<rparr>"



text \<open>A loaded cart of 60 Widgets, and the shop in which \<open>u1\<close> owns it; 500 Widgets
  are in stock.\<close>

definition cart_60 :: "product_ref cart" where
  "cart_60 = \<lparr> c_items = [\<lparr> ci_product = ObjectId ''p1'', ci_quantity = 60, ci_price = 10 \<rparr>],
               c_totalAmount = 600, c_totalItems = 60 \<rparr>"

definition db_cart_60 :: db where
  "db_cart_60 =
     \<lparr> products = [''p1'' \<mapsto> widget 10 500 True], orders = [],
       carts = [''u1'' \<mapsto> \<lparr> c_items = [\<lparr> ci_product = ''p1'', ci_quantity = 60, ci_price = 10 \<rparr>],
                              c_totalAmount = 600, c_totalItems = 60 \<rparr>] \<rparr>"

text \<open>A cart with a line for a product that has no document, and a cart with a line
  for a product that was switched off (and a stale price on the other line).\<close>

definition db_dangling :: db where
  "db_dangling =
     \<lparr> products = [''p1'' \<mapsto> widget 10 5 True], orders = [],
       carts = [''u1'' \<mapsto>
         \<lparr> c_items = [\<lparr> ci_product = ''p1'', ci_quantity = 1, ci_price = 10 \<rparr>,
                      \<lparr> ci_product = ''gone'', ci_quantity = 1, ci_price = 7 \<rparr>],
           c_totalAmount = 17, c_totalItems = 2 \<rparr>] \<rparr>"

definition db_inactive :: db where
  "db_inactive =
     \<lparr> products = [''p1'' \<mapsto> widget 10 5 True, ''p2'' \<mapsto> gadget 20 1 False], orders = [],
       carts = [''u1'' \<mapsto>
         \<lparr> c_items = [\<lparr> ci_product = ''p1'', ci_quantity = 1, ci_price = 9 \<rparr>,
                      \<lparr> ci_product = ''p2'', ci_quantity = 1, ci_price = 20 \<rparr>],
           c_totalAmount = 29, c_totalItems = 2 \<rparr>] \<rparr>"

section \<open>Properties\<close>

lemmas ex_defs = ex_usr_def line_def widget_def gadget_def db_widget_def db_two_def

subsection \<open>Schema validation of an order\<close>


lemma payment_info_invalid_paths_Nil:
  "payment_info_invalid_paths pinfo = [] \<longleftrightarrow>
     0 \<le> amount pinfo \<and> currency pinfo \<noteq> [] \<and> 0 \<le> refundAmount pinfo"
  by (auto simp add: payment_info_invalid_paths_def)

lemma if_single_Nil: "((if c then [x] else []) = []) = (\<not> c)"
  by simp

lemma history_entry_invalid_paths_Nil:
  "history_entry_invalid_paths h = [] \<longleftrightarrow> length (h_note h) \<le> 200"
  by (auto simp add: history_entry_invalid_paths_def)

text \<open>An order satisfies the schema when none of the modelled validators fails.\<close>

lemma order_invalid_paths_Nil:
  "order_invalid_paths ord = [] \<longleftrightarrow>
     orderNumber ord \<noteq> None
   \<and> (\<forall>it \<in> set (items ord). order_item_invalid_paths it = [])
   \<and> 0 \<le> subtotal ord \<and> 0 \<le> tax ord \<and> 0 \<le> shippingCost ord \<and> 0 \<le> discount ord
   \<and> 0 \<le> totalAmount ord
   \<and> payment_info_invalid_paths (paymentInfo ord) = []
   \<and> (\<forall>r. cancellationReason ord = Some r \<longrightarrow> length r \<le> 200)
   \<and> (\<forall>h \<in> set (statusHistory ord). length (h_note h) \<le> 200)"
  by (simp add: order_invalid_paths_def history_entry_invalid_paths_Nil if_single_Nil not_less
        split: option.split split del: if_split)


lemma length_status_name: "length (status_name s) \<le> 10"
  by (cases s) simp_all

subsection \<open>Order creation\<close>

lemma round2_0: "round2 0 = 0"
  by (simp add: round2_def Math_round_def floor_eq_iff)

lemma clearCart_Inr:
  "clearCart uid c d =
     Inr (\<lparr> c_items = [], c_totalAmount = 0, c_totalItems = 0 \<rparr>,
          d\<lparr> carts := (carts d)(uid \<mapsto> \<lparr> c_items = [], c_totalAmount = 0, c_totalItems = 0 \<rparr>) \<rparr>)"
  by (simp add: clearCart_def cart_save_def cart_invalid_paths_def cart_calculateTotals_def round2_0)

text \<open>A line passes the checks of the loop exactly when its product exists, is active
  and has the requested quantity in stock.\<close>

lemma createOrder_check_item_Inr:
  "createOrder_check_item ps item = Inr p \<longleftrightarrow>
     ps (ri_product item) = Some p \<and> isActive p \<and> ri_quantity item \<le> stock p"
  by (auto simp add: createOrder_check_item_def split: option.splits)

lemma createOrder_check_item_passes:
  "\<not> isl (createOrder_check_item ps item) \<longleftrightarrow>
     (\<exists>q. ps (ri_product item) = Some q \<and> isActive q \<and> ri_quantity item \<le> stock q)"
  by (auto simp add: createOrder_check_item_def split: option.splits)

text \<open>What the checking loop has computed when it ends without throwing.\<close>

lemma createOrder_check_Inr:
  "createOrder_check ps its s acc = Inr (s', acc') \<Longrightarrow>
     s' = s + (\<Sum>it\<leftarrow>its. price (the (ps (ri_product it))) * of_int (ri_quantity it))
   \<and> acc' = acc @ map (\<lambda>it. \<lparr> oi_product = ri_product it,
                               oi_productName = name (the (ps (ri_product it))),
                               oi_quantity = ri_quantity it,
                               oi_price = price (the (ps (ri_product it))),
                               oi_total = price (the (ps (ri_product it))) * of_int (ri_quantity it) \<rparr>) its
   \<and> (\<forall>it \<in> set its. \<exists>p. ps (ri_product it) = Some p \<and> isActive p \<and> ri_quantity it \<le> stock p)"
proof (induction its arbitrary: s acc)
  case Nil
  then show ?case by simp
next
  case (Cons a its)
  from Cons.prems obtain p where c: "createOrder_check_item ps a = Inr p"
    by (cases "createOrder_check_item ps a") auto
  then have p: "ps (ri_product a) = Some p" and act: "isActive p" and st: "ri_quantity a \<le> stock p"
    by (simp_all add: createOrder_check_item_Inr)
  from Cons.prems c have rec:
    "createOrder_check ps its (s + price p * of_int (ri_quantity a))
       (acc @ [\<lparr> oi_product = ri_product a, oi_productName = name p,
                 oi_quantity = ri_quantity a, oi_price = price p,
                 oi_total = price p * of_int (ri_quantity a) \<rparr>]) = Inr (s', acc')"
    by (simp add: Let_def)
  from Cons.IH[OF rec] p act st show ?case
    by (simp add: algebra_simps)
qed

text \<open>The loop throws the error of the first line, in request order, that fails a
  check.\<close>

lemma createOrder_check_first_failure:
  assumes "item \<in> set its" "isl (createOrder_check_item ps item)"
  shows "\<exists>pre bad post e. its = pre @ bad # post
           \<and> (\<forall>x \<in> set pre. \<not> isl (createOrder_check_item ps x))
           \<and> createOrder_check_item ps bad = Inl e
           \<and> createOrder_check ps its s acc = Inl e"
  using assms
proof (induction its arbitrary: s acc)
  case Nil
  then show ?case by simp
next
  case (Cons a its)
  show ?case
  proof (cases "createOrder_check_item ps a")
    case (Inl e)
    then have "a # its = [] @ a # its \<and> (\<forall>x \<in> set []. \<not> isl (createOrder_check_item ps x))
           \<and> createOrder_check_item ps a = Inl e
           \<and> createOrder_check ps (a # its) s acc = Inl e"
      by simp
    then show ?thesis by blast
  next
    case (Inr p)
    with Cons.prems have "item \<in> set its" by auto
    from Cons.IH[OF this Cons.prems(2)] obtain pre bad post e where
      d: "its = pre @ bad # post"
      and ok: "\<forall>x \<in> set pre. \<not> isl (createOrder_check_item ps x)"
      and b: "createOrder_check_item ps bad = Inl e"
      and r: "createOrder_check ps its (s + price p * of_int (ri_quantity a))
                (acc @ [\<lparr> oi_product = ri_product a, oi_productName = name p,
                          oi_quantity = ri_quantity a, oi_price = price p,
                          oi_total = price p * of_int (ri_quantity a) \<rparr>]) = Inl e"
      by blast
    from d ok b r Inr have "a # its = (a # pre) @ bad # post
           \<and> (\<forall>x \<in> set (a # pre). \<not> isl (createOrder_check_item ps x))
           \<and> createOrder_check_item ps bad = Inl e
           \<and> createOrder_check ps (a # its) s acc = Inl e"
      by (simp add: Let_def)
    then show ?thesis by blast
  qed
qed

lemma createOrder_check_failed:
  "its \<noteq> [] \<Longrightarrow> createOrder_check (products d) its 0 [] = Inl e \<Longrightarrow>
     createOrder usr (Some its) pm cur now rnd d = (Inl e, d)"
  by (simp add: createOrder_def)





text \<open>For one Widget at 9.99 every check passes, and the creation ends at
  \<open>Order.create\<close>: the shop is left without an order and with its five Widgets.\<close>

lemma createOrder_valid_request_rejected:
  "createOrder ex_usr (Some [line ''p1'' 1]) Cod None 0 0 (db_widget (999 / 100) 5)
     = (Inl (MongooseValidationError [''orderNumber'']), db_widget (999 / 100) 5)"
  by (simp add: createOrder_def createOrder_check_item_def Order_create_def order_validate_def
        order_invalid_paths_def order_item_invalid_paths_def payment_info_invalid_paths_def
        ex_defs Let_def)

text \<open>
  Claim C3, as amended. When some line of the request asks for more than its product has
  in stock, \<open>createOrder\<close> throws and leaves the database as it was: no order is stored
  and no stock is changed, for any line. The error thrown is that of the first line, in
  request order, that fails a check (every line before it names an existing, active
  product with the requested quantity in stock): NotFoundError with that line's product
  id when its product does not exist, ValidationError with the product's name when it is
  inactive, and else InsufficientStockError with the product's name, its stock and the
  quantity that line requested, which exceeds the stock.
\<close>

theorem createOrder_overstock_aborts:
  assumes "item \<in> set its"
    and "products d (ri_product item) = Some p"
    and "stock p < ri_quantity item"
  shows "\<exists>pre bad post e.
           its = pre @ bad # post
         \<and> (\<forall>x \<in> set pre. \<exists>q. products d (ri_product x) = Some q \<and> isActive q
                               \<and> ri_quantity x \<le> stock q)
         \<and> createOrder usr (Some its) pm cur now rnd d = (Inl e, d)
         \<and> (case products d (ri_product bad) of
              None \<Rightarrow> e = NotFoundError (''Product with ID '' @ ri_product bad)
            | Some q \<Rightarrow>
                if \<not> isActive q
                then e = ValidationError (''Product '' @ name q @ '' is not available'')
                else stock q < ri_quantity bad
                   \<and> e = InsufficientStockError (name q) (stock q) (ri_quantity bad))"
proof -
  from assms(1) have ne: "its \<noteq> []" by auto
  from assms(2,3) have "isl (createOrder_check_item (products d) item)"
    by (simp add: createOrder_check_item_def)
  from createOrder_check_first_failure[OF assms(1) this, of 0 "[]"]
  obtain pre bad post e where
    d: "its = pre @ bad # post"
    and ok: "\<forall>x \<in> set pre. \<not> isl (createOrder_check_item (products d) x)"
    and b: "createOrder_check_item (products d) bad = Inl e"
    and r: "createOrder_check (products d) its 0 [] = Inl e"
    by blast
  from ok have ok': "\<forall>x \<in> set pre. \<exists>q. products d (ri_product x) = Some q \<and> isActive q
                               \<and> ri_quantity x \<le> stock q"
    by (simp add: createOrder_check_item_passes)
  from b have k: "(case products d (ri_product bad) of
              None \<Rightarrow> e = NotFoundError (''Product with ID '' @ ri_product bad)
            | Some q \<Rightarrow>
                if \<not> isActive q
                then e = ValidationError (''Product '' @ name q @ '' is not available'')
                else stock q < ri_quantity bad
                   \<and> e = InsufficientStockError (name q) (stock q) (ri_quantity bad))"
    by (auto simp add: createOrder_check_item_def split: option.splits if_splits)
  from createOrder_check_failed[OF ne r] d ok' k show ?thesis by blast
qed

text \<open>The second line of this request asks for 3 Gadgets of which there is 1: the
  creation throws InsufficientStockError and the Widgets of the first line stay at 5.\<close>

theorem createOrder_overstock_aborts_witness:
  "line ''p2'' 3 \<in> set [line ''p1'' 2, line ''p2'' 3]
   \<and> products db_two (ri_product (line ''p2'' 3)) = Some (gadget 20 1 True)
   \<and> stock (gadget 20 1 True) < ri_quantity (line ''p2'' 3)
   \<and> createOrder ex_usr (Some [line ''p1'' 2, line ''p2'' 3]) Cod None 0 0 db_two
       = (Inl (InsufficientStockError ''Gadget'' 1 3), db_two)"
proof -
  have h1: "line ''p2'' 3 \<in> set [line ''p1'' 2, line ''p2'' 3]" by simp
  have h2: "products db_two (ri_product (line ''p2'' 3)) = Some (gadget 20 1 True)"
    by (simp add: ex_defs)
  have h3: "stock (gadget 20 1 True) < ri_quantity (line ''p2'' 3)"
    by (simp add: ex_defs)
  from createOrder_overstock_aborts[OF h1 h2 h3, of ex_usr Cod None 0 0]
  have "\<exists>e. createOrder ex_usr (Some [line ''p1'' 2, line ''p2'' 3]) Cod None 0 0 db_two = (Inl e, db_two)"
    by blast
  moreover have "fst (createOrder ex_usr (Some [line ''p1'' 2, line ''p2'' 3]) Cod None 0 0 db_two)
                   = Inl (InsufficientStockError ''Gadget'' 1 3)"
    by (simp add: createOrder_def createOrder_check_item_def ex_defs)
  ultimately have "createOrder ex_usr (Some [line ''p1'' 2, line ''p2'' 3]) Cod None 0 0 db_two
       = (Inl (InsufficientStockError ''Gadget'' 1 3), db_two)"
    by auto
  with h1 h2 h3 show ?thesis by blast
qed

text \<open>The claim as written names InsufficientStock as the error. Here the second line
  asks for 9 Widgets of which there are 5, and the creation throws NotFoundError for the
  first line, whose product does not exist.\<close>

theorem createOrder_overstock_behind_missing_product:
  "createOrder ex_usr (Some [line ''gone'' 1, line ''p1'' 9]) Cod None 0 0 (db_widget 10 5)
     = (Inl (NotFoundError ''Product with ID gone''), db_widget 10 5)"
  by (simp add: createOrder_def createOrder_check_item_def ex_defs)


subsection \<open>Stock after the two stock loops\<close>

lemma inc_stock_apply:
  "inc_stock ps k n pid =
     (if pid = k then map_option (\<lambda>p. p\<lparr> stock := stock p + n \<rparr>) (ps k) else ps pid)"
  by (simp add: inc_stock_def split: option.splits)

text \<open>Cancelling adds, to every product, the quantities of the order lines that name it.\<close>

lemma cancelOrder_restore_apply:
  "cancelOrder_restore ps its pid =
     map_option (\<lambda>p. p\<lparr> stock := stock p +
        (\<Sum>it\<leftarrow>filter (\<lambda>it. oi_product it = pid) its. oi_quantity it) \<rparr>) (ps pid)"
proof (induction its arbitrary: ps)
  case Nil
  show ?case by (cases "ps pid") simp_all
next
  case (Cons a its)
  show ?case
    by (cases "ps pid") (auto simp add: Cons.IH inc_stock_apply algebra_simps)
qed

text \<open>The loop after \<open>Order.create\<close> subtracts, from every product, the quantities of
  the request lines that name it.\<close>

lemma createOrder_decrement_apply:
  "createOrder_decrement ps its pid =
     map_option (\<lambda>p. p\<lparr> stock := stock p -
        (\<Sum>it\<leftarrow>filter (\<lambda>it. ri_product it = pid) its. ri_quantity it) \<rparr>) (ps pid)"
proof (induction its arbitrary: ps)
  case Nil
  show ?case by (cases "ps pid") simp_all
next
  case (Cons a its)
  show ?case
    by (cases "ps pid") (auto simp add: Cons.IH inc_stock_apply algebra_simps)
qed

subsection \<open>Cancellation\<close>

lemmas ex_order_defs = ex_order_def db_order_def

lemmas order_schema_defs = order_validate_def order_invalid_paths_def order_item_invalid_paths_def
  payment_info_invalid_paths_def history_entry_invalid_paths_def

text \<open>The model method refuses three statuses.\<close>

lemma order_cancelOrder_refuses:
  "status ord \<in> {Delivered, Cancelled, Refunded} \<Longrightarrow>
     order_cancelOrder now reason ord
       = Inl (Error (''Cannot cancel order with status: '' @ status_name (status ord)))"
  by (simp add: order_cancelOrder_def)


text \<open>On an order that satisfies the schema, with a reason of at most 200 characters,
  the save goes through.\<close>

lemma order_cancelOrder_saves:
  assumes "status ord \<notin> {Delivered, Cancelled, Refunded}"
    and "order_invalid_paths ord = []"
    and "length reason \<le> 200"
  shows "\<exists>ord'. order_cancelOrder now reason ord = Inr ord'
           \<and> status ord' = Cancelled \<and> cancelledAt ord' = Some now
           \<and> cancellationReason ord' = Some reason
           \<and> items ord' = items ord \<and> user ord' = user ord
           \<and> statusHistory ord' = statusHistory ord @
                [\<lparr> h_status = Cancelled, h_timestamp = now,
                   h_note = (if reason \<noteq> [] then reason else ''Order cancelled'') \<rparr>]
           \<and> (pay_status (paymentInfo ord) = PayCompleted \<longrightarrow>
                  pay_status (paymentInfo ord') = PayRefunded
                \<and> refundAmount (paymentInfo ord') = amount (paymentInfo ord)
                \<and> refundedAt (paymentInfo ord') = Some now)
           \<and> (pay_status (paymentInfo ord) \<noteq> PayCompleted \<longrightarrow> paymentInfo ord' = paymentInfo ord)"
proof -
  let ?o2 = "ord\<lparr> status := Cancelled, cancelledAt := Some now, cancellationReason := Some reason,
                   statusHistory := statusHistory ord @
                     [\<lparr> h_status = Cancelled, h_timestamp = now,
                        h_note = (if reason \<noteq> [] then reason else ''Order cancelled'') \<rparr>] \<rparr>"
  let ?o3 = "?o2\<lparr> paymentInfo := (paymentInfo ord)
                     \<lparr> pay_status := PayRefunded, refundedAt := Some now,
                       refundAmount := amount (paymentInfo ord) \<rparr> \<rparr>"
  from assms(2,3) have v2: "order_invalid_paths ?o2 = []"
    by (simp add: order_invalid_paths_Nil)
  from assms(2,3) have v3: "order_invalid_paths ?o3 = []"
    by (simp add: order_invalid_paths_Nil payment_info_invalid_paths_Nil)
  show ?thesis
  proof (cases "pay_status (paymentInfo ord) = PayCompleted")
    case True
    with assms(1) v3 show ?thesis
      by (simp add: order_cancelOrder_def Let_def order_validate_def)
  next
    case False
    with assms(1) v2 show ?thesis
      by (simp add: order_cancelOrder_def Let_def order_validate_def)
  qed
qed

text \<open>With a longer reason it does not: the validation fails on the reason (and on the
  note of the new history entry).\<close>

lemma order_cancelOrder_long_reason:
  assumes "status ord \<notin> {Delivered, Cancelled, Refunded}"
    and "200 < length reason"
  shows "\<exists>paths. order_cancelOrder now reason ord = Inl (MongooseValidationError paths)
           \<and> ''cancellationReason'' \<in> set paths"
proof -
  let ?o2 = "ord\<lparr> status := Cancelled, cancelledAt := Some now, cancellationReason := Some reason,
                   statusHistory := statusHistory ord @
                     [\<lparr> h_status = Cancelled, h_timestamp = now,
                        h_note = (if reason \<noteq> [] then reason else ''Order cancelled'') \<rparr>] \<rparr>"
  let ?o3 = "?o2\<lparr> paymentInfo := (paymentInfo ord)
                     \<lparr> pay_status := PayRefunded, refundedAt := Some now,
                       refundAmount := amount (paymentInfo ord) \<rparr> \<rparr>"
  from assms(2) have m2: "''cancellationReason'' \<in> set (order_invalid_paths ?o2)"
    by (simp add: order_invalid_paths_def split del: if_split)
  from assms(2) have m3: "''cancellationReason'' \<in> set (order_invalid_paths ?o3)"
    by (simp add: order_invalid_paths_def split del: if_split)
  from m2 have n2: "order_invalid_paths ?o2 \<noteq> []" by auto
  from m3 have n3: "order_invalid_paths ?o3 \<noteq> []" by auto
  show ?thesis
  proof (cases "pay_status (paymentInfo ord) = PayCompleted")
    case True
    with assms(1) n3 have "order_cancelOrder now reason ord
        = Inl (MongooseValidationError (order_invalid_paths ?o3))"
      by (simp add: order_cancelOrder_def Let_def order_validate_def)
    with m3 show ?thesis by blast
  next
    case False
    with assms(1) n2 have "order_cancelOrder now reason ord
        = Inl (MongooseValidationError (order_invalid_paths ?o2))"
      by (simp add: order_cancelOrder_def Let_def order_validate_def)
    with m2 show ?thesis by blast
  qed
qed

text \<open>
  Claim C4, as amended. On an order that is stored in a form that satisfies the order
  schema, a cancellation by the order's owner or an admin fails with the ValidationError
  that names the status if and only if the order is delivered, cancelled, refunded or
  shipped (a reason of at most 200 characters given). For every other status (pending,
  confirmed, processing) and a reason of at most 200 characters it succeeds: the status
  becomes cancelled, every product gets back the quantities of the order lines that name
  it, and a completed payment becomes refunded with a refund amount equal to the paid
  amount (any other payment is left as it is). A longer reason fails the validation of
  the save (\<open>cancellationReason\<close> has \<open>maxLength: 200\<close>): the cancellation ends in the
  store's validation error before the stock loop, and nothing is written.
\<close>

theorem cancelOrder_controller_outcome:
  assumes "oid < length (orders d)"
    and "user (orders d ! oid) = u_id usr \<or> u_role usr = ''admin''"
    and "order_invalid_paths (orders d ! oid) = []"
  shows "(status (orders d ! oid) \<in> {Delivered, Cancelled, Refunded, Shipped} \<longrightarrow>
            cancelOrder usr oid reason now d =
              (Inl (ValidationError (''Cannot cancel order with status: ''
                      @ status_name (status (orders d ! oid)))), d))
       \<and> (status (orders d ! oid) \<notin> {Delivered, Cancelled, Refunded, Shipped}
            \<and> length reason \<le> 200 \<longrightarrow>
            (\<exists>ord' d'. cancelOrder usr oid reason now d = (Inr ord', d')
               \<and> orders d' = (orders d)[oid := ord'] \<and> carts d' = carts d
               \<and> status ord' = Cancelled
               \<and> items ord' = items (orders d ! oid)
               \<and> (\<forall>pid. products d' pid =
                     map_option (\<lambda>p. p\<lparr> stock := stock p +
                         (\<Sum>it\<leftarrow>filter (\<lambda>it. oi_product it = pid) (items (orders d ! oid)).
                            oi_quantity it) \<rparr>) (products d pid))
               \<and> (pay_status (paymentInfo (orders d ! oid)) = PayCompleted \<longrightarrow>
                      pay_status (paymentInfo ord') = PayRefunded
                    \<and> refundAmount (paymentInfo ord') = amount (paymentInfo (orders d ! oid)))
               \<and> (pay_status (paymentInfo (orders d ! oid)) \<noteq> PayCompleted \<longrightarrow>
                      paymentInfo ord' = paymentInfo (orders d ! oid))))
       \<and> (status (orders d ! oid) \<notin> {Delivered, Cancelled, Refunded, Shipped}
            \<and> 200 < length reason \<longrightarrow>
            (\<exists>paths. cancelOrder usr oid reason now d = (Inl (MongooseValidationError paths), d)
               \<and> ''cancellationReason'' \<in> set paths))"
proof (intro conjI impI)
  assume "status (orders d ! oid) \<in> {Delivered, Cancelled, Refunded, Shipped}"
  with assms show "cancelOrder usr oid reason now d =
      (Inl (ValidationError (''Cannot cancel order with status: ''
              @ status_name (status (orders d ! oid)))), d)"
    by (auto simp add: cancelOrder_def Let_def nonCancellableStatuses_def)
next
  assume a: "status (orders d ! oid) \<notin> {Delivered, Cancelled, Refunded, Shipped}
            \<and> length reason \<le> 200"
  then have ok3: "status (orders d ! oid) \<notin> {Delivered, Cancelled, Refunded}"
    and len: "length reason \<le> 200" by simp_all
  from order_cancelOrder_saves[OF ok3 assms(3) len, of now] obtain ord' where
    c: "order_cancelOrder now reason (orders d ! oid) = Inr ord'"
    and st: "status ord' = Cancelled" and it: "items ord' = items (orders d ! oid)"
    and p1: "pay_status (paymentInfo (orders d ! oid)) = PayCompleted \<longrightarrow>
                  pay_status (paymentInfo ord') = PayRefunded
                \<and> refundAmount (paymentInfo ord') = amount (paymentInfo (orders d ! oid))
                \<and> refundedAt (paymentInfo ord') = Some now"
    and p2: "pay_status (paymentInfo (orders d ! oid)) \<noteq> PayCompleted \<longrightarrow>
               paymentInfo ord' = paymentInfo (orders d ! oid)"
    by blast
  from assms a c have run: "cancelOrder usr oid reason now d =
      (Inr ord', d\<lparr> orders := (orders d)[oid := ord'],
                    products := cancelOrder_restore (products d) (items ord') \<rparr>)"
    by (auto simp add: cancelOrder_def Let_def nonCancellableStatuses_def)
  show "\<exists>ord' d'. cancelOrder usr oid reason now d = (Inr ord', d')
               \<and> orders d' = (orders d)[oid := ord'] \<and> carts d' = carts d
               \<and> status ord' = Cancelled
               \<and> items ord' = items (orders d ! oid)
               \<and> (\<forall>pid. products d' pid =
                     map_option (\<lambda>p. p\<lparr> stock := stock p +
                         (\<Sum>it\<leftarrow>filter (\<lambda>it. oi_product it = pid) (items (orders d ! oid)).
                            oi_quantity it) \<rparr>) (products d pid))
               \<and> (pay_status (paymentInfo (orders d ! oid)) = PayCompleted \<longrightarrow>
                      pay_status (paymentInfo ord') = PayRefunded
                    \<and> refundAmount (paymentInfo ord') = amount (paymentInfo (orders d ! oid)))
               \<and> (pay_status (paymentInfo (orders d ! oid)) \<noteq> PayCompleted \<longrightarrow>
                      paymentInfo ord' = paymentInfo (orders d ! oid))"
    using run st it p1 p2 by (simp add: cancelOrder_restore_apply)
next
  assume a: "status (orders d ! oid) \<notin> {Delivered, Cancelled, Refunded, Shipped}
            \<and> 200 < length reason"
  then have ok3: "status (orders d ! oid) \<notin> {Delivered, Cancelled, Refunded}"
    and len: "200 < length reason" by simp_all
  from order_cancelOrder_long_reason[OF ok3 len, of now] obtain paths where
    c: "order_cancelOrder now reason (orders d ! oid) = Inl (MongooseValidationError paths)"
    and m: "''cancellationReason'' \<in> set paths" by blast
  from assms a c have "cancelOrder usr oid reason now d = (Inl (MongooseValidationError paths), d)"
    by (auto simp add: cancelOrder_def Let_def nonCancellableStatuses_def)
  with m show "\<exists>paths. cancelOrder usr oid reason now d = (Inl (MongooseValidationError paths), d)
               \<and> ''cancellationReason'' \<in> set paths"
    by blast
qed

text \<open>A processing order whose payment is completed, cancelled by its owner: the order
  is cancelled, the payment refunded in full (72), and the Widgets go from 3 to 5. With
  a reason of 201 characters the same cancellation is refused and nothing is written.\<close>

theorem cancelOrder_controller_outcome_witness:
  "0 < length (orders (db_order Processing PayCompleted (Some 5)))
   \<and> (user (orders (db_order Processing PayCompleted (Some 5)) ! 0) = u_id ex_usr
        \<or> u_role ex_usr = ''admin'')
   \<and> order_invalid_paths (orders (db_order Processing PayCompleted (Some 5)) ! 0) = []
   \<and> status (orders (db_order Processing PayCompleted (Some 5)) ! 0)
        \<notin> {Delivered, Cancelled, Refunded, Shipped}
   \<and> (\<exists>ord' d'. cancelOrder ex_usr 0 [] 100 (db_order Processing PayCompleted (Some 5))
                   = (Inr ord', d')
          \<and> status ord' = Cancelled
          \<and> pay_status (paymentInfo ord') = PayRefunded
          \<and> refundAmount (paymentInfo ord') = 72
          \<and> map_option stock (products d' ''p1'') = Some 5)
   \<and> (\<exists>paths. cancelOrder ex_usr 0 (replicate 201 CHR ''x'') 100
                  (db_order Processing PayCompleted (Some 5))
                = (Inl (MongooseValidationError paths), db_order Processing PayCompleted (Some 5)))"
proof -
  let ?d = "db_order Processing PayCompleted (Some 5)"
  have h1: "0 < length (orders ?d)" by (simp add: ex_order_defs)
  have h2: "user (orders ?d ! 0) = u_id ex_usr \<or> u_role ex_usr = ''admin''"
    by (simp add: ex_order_defs ex_defs)
  have h3: "status (orders ?d ! 0) \<notin> {Delivered, Cancelled, Refunded, Shipped}"
    by (simp add: ex_order_defs)
  have h4: "order_invalid_paths (orders ?d ! 0) = []"
    by (simp add: ex_order_defs order_schema_defs)
  have l1: "length ([] :: string) \<le> 200" by simp
  have l2: "200 < length (replicate 201 CHR ''x'')" by simp
  from cancelOrder_controller_outcome[OF h1 h2 h4, of "[]" 100] h3 l1
  obtain ord' d' where r: "cancelOrder ex_usr 0 [] 100 ?d = (Inr ord', d')"
    and s: "status ord' = Cancelled"
    and st: "\<forall>pid. products d' pid =
               map_option (\<lambda>p. p\<lparr> stock := stock p +
                  (\<Sum>it\<leftarrow>filter (\<lambda>it. oi_product it = pid) (items (orders ?d ! 0)).
                     oi_quantity it) \<rparr>) (products ?d pid)"
    and pay: "pay_status (paymentInfo (orders ?d ! 0)) = PayCompleted \<longrightarrow>
                pay_status (paymentInfo ord') = PayRefunded
              \<and> refundAmount (paymentInfo ord') = amount (paymentInfo (orders ?d ! 0))"
    by blast
  from pay have p: "pay_status (paymentInfo ord') = PayRefunded"
    and a: "refundAmount (paymentInfo ord') = 72"
    by (simp_all add: ex_order_defs)
  from st have "map_option stock (products d' ''p1'') = Some 5"
    by (simp add: ex_order_defs ex_defs)
  with r s p a have first: "\<exists>ord' d'. cancelOrder ex_usr 0 [] 100 ?d = (Inr ord', d')
          \<and> status ord' = Cancelled
          \<and> pay_status (paymentInfo ord') = PayRefunded
          \<and> refundAmount (paymentInfo ord') = 72
          \<and> map_option stock (products d' ''p1'') = Some 5"
    by blast
  from cancelOrder_controller_outcome[OF h1 h2 h4, of "replicate 201 CHR ''x''" 100] h3 l2
  have second: "\<exists>paths. cancelOrder ex_usr 0 (replicate 201 CHR ''x'') 100 ?d
                = (Inl (MongooseValidationError paths), ?d)"
    by blast
  from h1 h2 h3 h4 first second show ?thesis by blast
qed

text \<open>The claim as written lets a shipped order be cancelled. The controller refuses
  it, and nothing is written.\<close>

theorem cancelOrder_shipped_rejected:
  "cancelOrder ex_usr 0 ''changed my mind'' 100 (db_order Shipped PayPending None)
     = (Inl (ValidationError ''Cannot cancel order with status: shipped''),
        db_order Shipped PayPending None)"
  by (simp add: cancelOrder_def ex_defs ex_order_defs nonCancellableStatuses_def)


subsection \<open>Payment confirmation\<close>



lemma updateStatus_assign_paymentInfo:
  "paymentInfo (updateStatus_assign now st note ord) = paymentInfo ord"
  by (simp add: updateStatus_assign_def Let_def)


lemma updatePaymentStatus_pay_status:
  "pay_status (paymentInfo (updatePaymentStatus now st tid paid ord)) = st"
  by (simp add: updatePaymentStatus_def updateStatus_assign_paymentInfo Let_def split: option.splits)



text \<open>Any completion: a \<open>paidAt\<close> is on record afterwards, and the order status moves
  only from pending, and then to confirmed.\<close>

lemma updatePaymentStatus_completion_any:
  "paidAt (paymentInfo (updatePaymentStatus now PayCompleted tid paid ord)) \<noteq> None
   \<and> (status (updatePaymentStatus now PayCompleted tid paid ord) \<noteq> status ord \<longrightarrow>
        status ord = Pending
      \<and> status (updatePaymentStatus now PayCompleted tid paid ord) = Confirmed)"
  by (simp add: updatePaymentStatus_def updateStatus_assign_def Let_def split: option.splits)

text \<open>A payment that is completed, has a \<open>paidAt\<close> and carries the transaction id is
  left as it is by one more completion.\<close>

lemma same_pay_status:
  "pay_status pinfo = st \<Longrightarrow> pinfo\<lparr> pay_status := st \<rparr> = pinfo"
  by (cases pinfo) simp

lemma same_transactionId:
  "transactionId pinfo = t \<Longrightarrow> pinfo\<lparr> transactionId := t \<rparr> = pinfo"
  by (cases pinfo) simp

lemma updatePaymentStatus_settled:
  assumes "pay_status (paymentInfo x) = PayCompleted"
    and "paidAt (paymentInfo x) \<noteq> None"
    and "\<And>t. tid = Some t \<Longrightarrow> t \<noteq> [] \<Longrightarrow> transactionId (paymentInfo x) = Some t"
  shows "updatePaymentStatus now PayCompleted tid paid x = x"
proof -
  have a: "x\<lparr> paymentInfo := (paymentInfo x)\<lparr> pay_status := PayCompleted \<rparr> \<rparr> = x"
    using assms(1) by (simp add: same_pay_status)
  from assms(2) obtain y where y: "paidAt (paymentInfo x) = Some y" by auto
  show ?thesis
  proof (cases tid)
    case None
    with y a show ?thesis by (simp add: updatePaymentStatus_def Let_def)
  next
    case (Some t)
    show ?thesis
    proof (cases "t = []")
      case True
      with Some y a show ?thesis by (simp add: updatePaymentStatus_def Let_def)
    next
      case False
      with Some assms(3) have "transactionId (paymentInfo x) = Some t" by simp
      then have b: "x\<lparr> paymentInfo := (paymentInfo x)\<lparr> transactionId := Some t \<rparr> \<rparr> = x"
        by (simp add: same_transactionId)
      from Some False y a b show ?thesis by (simp add: updatePaymentStatus_def Let_def)
    qed
  qed
qed

lemma updatePaymentStatus_transactionId:
  "tid = Some t \<Longrightarrow> t \<noteq> [] \<Longrightarrow>
     transactionId (paymentInfo (updatePaymentStatus now st tid paid ord)) = Some t"
  by (simp add: updatePaymentStatus_def updateStatus_assign_paymentInfo Let_def)

text \<open>So \<open>updatePaymentStatus\<close> is itself idempotent for a completion, also without the
  check of the webhook helper.\<close>

lemma updatePaymentStatus_completed_twice:
  "updatePaymentStatus now2 PayCompleted tid paid2 (updatePaymentStatus now PayCompleted tid paid ord)
     = updatePaymentStatus now PayCompleted tid paid ord"
proof (rule updatePaymentStatus_settled)
  show "pay_status (paymentInfo (updatePaymentStatus now PayCompleted tid paid ord)) = PayCompleted"
    by (rule updatePaymentStatus_pay_status)
  show "paidAt (paymentInfo (updatePaymentStatus now PayCompleted tid paid ord)) \<noteq> None"
    using updatePaymentStatus_completion_any[of now tid paid ord] by simp
  show "\<And>t. tid = Some t \<Longrightarrow> t \<noteq> [] \<Longrightarrow>
     transactionId (paymentInfo (updatePaymentStatus now PayCompleted tid paid ord)) = Some t"
    by (rule updatePaymentStatus_transactionId)
qed




subsection \<open>Status transitions\<close>

lemma parse_status_name: "parse_status (status_name s) = Some s"
  by (cases s) (simp_all add: parse_status_def validStatuses_def)

text \<open>The table of the controller, pair by pair.\<close>

lemma transition_forbidden_iff:
  "transition_forbidden cur new \<longleftrightarrow>
     (cur, new) \<in> {(Delivered, Pending), (Delivered, Confirmed), (Delivered, Processing),
                    (Cancelled, Shipped), (Cancelled, Delivered),
                    (Refunded, Pending), (Refunded, Confirmed), (Refunded, Processing)}"
  by (cases cur; cases new) (simp_all add: transition_forbidden_def)

lemma updateOrderStatus_rejects:
  assumes "oid < length (orders d)" "transition_forbidden (status (orders d ! oid)) new"
  shows "updateOrderStatus oid (status_name new) note now d
           = (Inl (ValidationError (''Cannot change status from ''
                     @ status_name (status (orders d ! oid)) @ '' to '' @ status_name new)), d)"
  using assms by (simp add: updateOrderStatus_def parse_status_name)

lemma updateStatus_assign_status: "status (updateStatus_assign now new note ord) = new"
  by (simp add: updateStatus_assign_def Let_def)

lemma updateStatus_assign_history:
  "statusHistory (updateStatus_assign now new note ord) = statusHistory ord @
     [\<lparr> h_status = new, h_timestamp = now,
        h_note = (if note \<noteq> [] then note
                  else ''Status changed from '' @ status_name (status ord)
                         @ '' to '' @ status_name new) \<rparr>]"
  by (simp add: updateStatus_assign_def Let_def)

text \<open>The assignments keep an order within the schema when the note has at most 200
  characters (the note written for an empty one has at most 44), and take it out of the
  schema when the note is longer.\<close>

lemma updateStatus_assign_valid:
  assumes "order_invalid_paths ord = []" "length note \<le> 200"
  shows "order_invalid_paths (updateStatus_assign now new note ord) = []"
  using assms length_status_name[of "status ord"] length_status_name[of new]
  by (simp add: order_invalid_paths_Nil updateStatus_assign_def Let_def)

lemma long_note_invalid:
  assumes "h \<in> set (statusHistory ord)" "200 < length (h_note h)"
  shows "''statusHistory.note'' \<in> set (order_invalid_paths ord)"
proof -
  from assms(2) have "''statusHistory.note'' \<in> set (history_entry_invalid_paths h)"
    by (simp add: history_entry_invalid_paths_def)
  with assms(1)
  have "''statusHistory.note'' \<in> set (concat (map history_entry_invalid_paths (statusHistory ord)))"
    by auto
  then show ?thesis
    by (simp add: order_invalid_paths_def split del: if_split)
qed

lemma updateStatus_assign_long_note:
  assumes "200 < length note"
  shows "''statusHistory.note'' \<in> set (order_invalid_paths (updateStatus_assign now new note ord))"
proof -
  from assms have "note \<noteq> []" by auto
  then have "\<lparr> h_status = new, h_timestamp = now, h_note = note \<rparr>
               \<in> set (statusHistory (updateStatus_assign now new note ord))"
    by (simp add: updateStatus_assign_history)
  from long_note_invalid[OF this] assms show ?thesis by simp
qed

lemma updateOrderStatus_accepts:
  assumes "oid < length (orders d)" "\<not> transition_forbidden (status (orders d ! oid)) new"
    and "new \<noteq> status (orders d ! oid)"
    and "order_invalid_paths (orders d ! oid) = []" "length note \<le> 200"
  shows "updateOrderStatus oid (status_name new) note now d
           = (Inr (updateStatus_assign now new note (orders d ! oid)),
              d\<lparr> orders := (orders d)[oid := updateStatus_assign now new note (orders d ! oid)] \<rparr>)"
  using assms updateStatus_assign_valid[OF assms(4,5), of now new]
  by (auto simp add: updateOrderStatus_def parse_status_name Let_def updateStatus_def
        order_validate_def)

lemma updateOrderStatus_long_note:
  assumes "oid < length (orders d)" "\<not> transition_forbidden (status (orders d ! oid)) new"
    and "new \<noteq> status (orders d ! oid)"
    and "200 < length note"
  shows "\<exists>paths. updateOrderStatus oid (status_name new) note now d
                   = (Inl (MongooseValidationError paths), d)
           \<and> ''statusHistory.note'' \<in> set paths"
proof -
  let ?paths = "order_invalid_paths (updateStatus_assign now new note (orders d ! oid))"
  from updateStatus_assign_long_note[OF assms(4), of now new "orders d ! oid"]
  have m: "''statusHistory.note'' \<in> set ?paths" .
  then have "?paths \<noteq> []" by auto
  with assms have "updateOrderStatus oid (status_name new) note now d
                   = (Inl (MongooseValidationError ?paths), d)"
    by (auto simp add: updateOrderStatus_def parse_status_name Let_def updateStatus_def
          order_validate_def)
  with m show ?thesis by blast
qed

text \<open>
  Claim C6. A status change along a forbidden transition (from delivered to pending,
  confirmed or processing; from cancelled to shipped or delivered; from refunded to
  pending, confirmed or processing) fails with the ValidationError "Cannot change
  status from ... to ...", the controller's error for an invalid transition, and leaves
  the database, and with it the order's status and status history, unchanged.
\<close>

theorem updateOrderStatus_forbidden_rejected:
  assumes "oid < length (orders d)"
    and "(status (orders d ! oid), new) \<in>
           {(Delivered, Pending), (Delivered, Confirmed), (Delivered, Processing),
            (Cancelled, Shipped), (Cancelled, Delivered),
            (Refunded, Pending), (Refunded, Confirmed), (Refunded, Processing)}"
  shows "updateOrderStatus oid (status_name new) note now d
           = (Inl (ValidationError (''Cannot change status from ''
                     @ status_name (status (orders d ! oid)) @ '' to '' @ status_name new)), d)"
proof -
  from assms(2) have "transition_forbidden (status (orders d ! oid)) new"
    by (simp only: transition_forbidden_iff)
  with assms(1) show ?thesis by (rule updateOrderStatus_rejects)
qed

text \<open>A shipped order is set to delivered; the attempt to set it to pending then fails
  and the status remains delivered.\<close>

theorem updateOrderStatus_forbidden_rejected_witness:
  "0 < length (orders (snd (updateOrderStatus 0 ''delivered'' [] 10
                              (db_order Shipped PayCompleted (Some 5)))))
   \<and> map status (orders (snd (updateOrderStatus 0 ''delivered'' [] 10
                                 (db_order Shipped PayCompleted (Some 5))))) = [Delivered]
   \<and> updateOrderStatus 0 ''pending'' [] 20
        (snd (updateOrderStatus 0 ''delivered'' [] 10 (db_order Shipped PayCompleted (Some 5))))
       = (Inl (ValidationError ''Cannot change status from delivered to pending''),
          snd (updateOrderStatus 0 ''delivered'' [] 10 (db_order Shipped PayCompleted (Some 5))))"
proof -
  let ?d1 = "snd (updateOrderStatus 0 ''delivered'' [] 10 (db_order Shipped PayCompleted (Some 5)))"
  have v: "order_invalid_paths (orders (db_order Shipped PayCompleted (Some 5)) ! 0) = []"
    by (simp add: ex_order_defs order_schema_defs)
  have run: "?d1 = (db_order Shipped PayCompleted (Some 5))
        \<lparr> orders := [updateStatus_assign 10 Delivered [] (ex_order Shipped PayCompleted (Some 5))] \<rparr>"
    using updateOrderStatus_accepts[of 0 "db_order Shipped PayCompleted (Some 5)" Delivered "[]" 10] v
    by (simp add: transition_forbidden_def ex_order_defs)
  have h1: "0 < length (orders ?d1)" by (simp add: run)
  have st: "status (orders ?d1 ! 0) = Delivered" by (simp add: run updateStatus_assign_status)
  then have h2: "(status (orders ?d1 ! 0), Pending) \<in>
           {(Delivered, Pending), (Delivered, Confirmed), (Delivered, Processing),
            (Cancelled, Shipped), (Cancelled, Delivered),
            (Refunded, Pending), (Refunded, Confirmed), (Refunded, Processing)}" by simp
  have m: "map status (orders ?d1) = [Delivered]" by (simp add: run updateStatus_assign_status)
  from updateOrderStatus_forbidden_rejected[OF h1 h2, of "[]" 20] st
  have "updateOrderStatus 0 ''pending'' [] 20 ?d1
          = (Inl (ValidationError ''Cannot change status from delivered to pending''), ?d1)"
    by simp
  with h1 m show ?thesis by blast
qed

text \<open>
  Claim C7, as amended. Once an order (stored in a form that satisfies the order schema)
  is delivered, cancelled or refunded, a request for a different status fails exactly
  along the transitions of the controller's table (delivered to pending, confirmed or
  processing; cancelled to shipped or delivered; refunded to pending, confirmed or
  processing) and then changes nothing. Every other different status is accepted, when
  the request's note has at most 200 characters, and becomes the status of the order:
  shipped, cancelled or refunded after delivered; pending, confirmed, processing or
  refunded after cancelled; shipped, delivered or cancelled after refunded. With a
  longer note such a request fails the validation of the save (the \<open>note\<close> of a history
  entry has \<open>maxLength: 200\<close>) and nothing is written.
\<close>

theorem updateOrderStatus_from_terminal:
  assumes "oid < length (orders d)"
    and "status (orders d ! oid) \<in> {Delivered, Cancelled, Refunded}"
    and "new \<noteq> status (orders d ! oid)"
    and "order_invalid_paths (orders d ! oid) = []"
  shows "((status (orders d ! oid), new) \<in>
             {(Delivered, Pending), (Delivered, Confirmed), (Delivered, Processing),
              (Cancelled, Shipped), (Cancelled, Delivered),
              (Refunded, Pending), (Refunded, Confirmed), (Refunded, Processing)} \<longrightarrow>
           updateOrderStatus oid (status_name new) note now d
             = (Inl (ValidationError (''Cannot change status from ''
                       @ status_name (status (orders d ! oid)) @ '' to '' @ status_name new)), d))
       \<and> ((status (orders d ! oid), new) \<in>
             {(Delivered, Shipped), (Delivered, Cancelled), (Delivered, Refunded),
              (Cancelled, Pending), (Cancelled, Confirmed), (Cancelled, Processing),
              (Cancelled, Refunded),
              (Refunded, Shipped), (Refunded, Delivered), (Refunded, Cancelled)}
           \<and> length note \<le> 200 \<longrightarrow>
           (\<exists>ord' d'. updateOrderStatus oid (status_name new) note now d = (Inr ord', d')
              \<and> orders d' = (orders d)[oid := ord'] \<and> status (orders d' ! oid) = new
              \<and> statusHistory (orders d' ! oid) \<noteq> statusHistory (orders d ! oid)))
       \<and> ((status (orders d ! oid), new) \<in>
             {(Delivered, Shipped), (Delivered, Cancelled), (Delivered, Refunded),
              (Cancelled, Pending), (Cancelled, Confirmed), (Cancelled, Processing),
              (Cancelled, Refunded),
              (Refunded, Shipped), (Refunded, Delivered), (Refunded, Cancelled)}
           \<and> 200 < length note \<longrightarrow>
           (\<exists>paths. updateOrderStatus oid (status_name new) note now d
                       = (Inl (MongooseValidationError paths), d)
              \<and> ''statusHistory.note'' \<in> set paths))
       \<and> ((status (orders d ! oid), new) \<in>
             {(Delivered, Pending), (Delivered, Confirmed), (Delivered, Processing),
              (Cancelled, Shipped), (Cancelled, Delivered),
              (Refunded, Pending), (Refunded, Confirmed), (Refunded, Processing),
              (Delivered, Shipped), (Delivered, Cancelled), (Delivered, Refunded),
              (Cancelled, Pending), (Cancelled, Confirmed), (Cancelled, Processing),
              (Cancelled, Refunded),
              (Refunded, Shipped), (Refunded, Delivered), (Refunded, Cancelled)})"
proof (intro conjI impI)
  assume "(status (orders d ! oid), new) \<in>
             {(Delivered, Pending), (Delivered, Confirmed), (Delivered, Processing),
              (Cancelled, Shipped), (Cancelled, Delivered),
              (Refunded, Pending), (Refunded, Confirmed), (Refunded, Processing)}"
  then have "transition_forbidden (status (orders d ! oid)) new"
    by (simp only: transition_forbidden_iff)
  with assms(1) show "updateOrderStatus oid (status_name new) note now d
             = (Inl (ValidationError (''Cannot change status from ''
                       @ status_name (status (orders d ! oid)) @ '' to '' @ status_name new)), d)"
    by (rule updateOrderStatus_rejects)
next
  assume a: "(status (orders d ! oid), new) \<in>
             {(Delivered, Shipped), (Delivered, Cancelled), (Delivered, Refunded),
              (Cancelled, Pending), (Cancelled, Confirmed), (Cancelled, Processing),
              (Cancelled, Refunded),
              (Refunded, Shipped), (Refunded, Delivered), (Refunded, Cancelled)}
           \<and> length note \<le> 200"
  then have nf: "\<not> transition_forbidden (status (orders d ! oid)) new"
    by (auto simp add: transition_forbidden_iff)
  from a have len: "length note \<le> 200" by simp
  from updateOrderStatus_accepts[OF assms(1) nf assms(3) assms(4) len, of now]
  have run: "updateOrderStatus oid (status_name new) note now d
           = (Inr (updateStatus_assign now new note (orders d ! oid)),
              d\<lparr> orders := (orders d)[oid := updateStatus_assign now new note (orders d ! oid)] \<rparr>)" .
  have "statusHistory (updateStatus_assign now new note (orders d ! oid))
          \<noteq> statusHistory (orders d ! oid)"
    by (simp add: updateStatus_assign_history)
  with run assms(1) show "\<exists>ord' d'. updateOrderStatus oid (status_name new) note now d = (Inr ord', d')
              \<and> orders d' = (orders d)[oid := ord'] \<and> status (orders d' ! oid) = new
              \<and> statusHistory (orders d' ! oid) \<noteq> statusHistory (orders d ! oid)"
    by (simp add: updateStatus_assign_status)
next
  assume a: "(status (orders d ! oid), new) \<in>
             {(Delivered, Shipped), (Delivered, Cancelled), (Delivered, Refunded),
              (Cancelled, Pending), (Cancelled, Confirmed), (Cancelled, Processing),
              (Cancelled, Refunded),
              (Refunded, Shipped), (Refunded, Delivered), (Refunded, Cancelled)}
           \<and> 200 < length note"
  then have nf: "\<not> transition_forbidden (status (orders d ! oid)) new"
    by (auto simp add: transition_forbidden_iff)
  from a have len: "200 < length note" by simp
  from updateOrderStatus_long_note[OF assms(1) nf assms(3) len, of now]
  show "\<exists>paths. updateOrderStatus oid (status_name new) note now d
                       = (Inl (MongooseValidationError paths), d)
              \<and> ''statusHistory.note'' \<in> set paths" .
next
  from assms(2,3) show "(status (orders d ! oid), new) \<in>
             {(Delivered, Pending), (Delivered, Confirmed), (Delivered, Processing),
              (Cancelled, Shipped), (Cancelled, Delivered),
              (Refunded, Pending), (Refunded, Confirmed), (Refunded, Processing),
              (Delivered, Shipped), (Delivered, Cancelled), (Delivered, Refunded),
              (Cancelled, Pending), (Cancelled, Confirmed), (Cancelled, Processing),
              (Cancelled, Refunded),
              (Refunded, Shipped), (Refunded, Delivered), (Refunded, Cancelled)}"
    by (cases "status (orders d ! oid)"; cases new) auto
qed

text \<open>A cancelled order is set back to pending: the request is accepted. With a note of
  201 characters the same request is refused and nothing is written.\<close>

theorem updateOrderStatus_from_terminal_witness:
  "0 < length (orders (db_order Cancelled PayRefunded (Some 5)))
   \<and> status (orders (db_order Cancelled PayRefunded (Some 5)) ! 0) \<in> {Delivered, Cancelled, Refunded}
   \<and> Pending \<noteq> status (orders (db_order Cancelled PayRefunded (Some 5)) ! 0)
   \<and> order_invalid_paths (orders (db_order Cancelled PayRefunded (Some 5)) ! 0) = []
   \<and> (\<exists>ord' d'. updateOrderStatus 0 ''pending'' [] 50 (db_order Cancelled PayRefunded (Some 5))
                   = (Inr ord', d')
          \<and> status (orders d' ! 0) = Pending)
   \<and> (\<exists>paths. updateOrderStatus 0 ''pending'' (replicate 201 CHR ''x'') 50
                  (db_order Cancelled PayRefunded (Some 5))
                = (Inl (MongooseValidationError paths), db_order Cancelled PayRefunded (Some 5)))"
proof -
  let ?d = "db_order Cancelled PayRefunded (Some 5)"
  have h1: "0 < length (orders ?d)" by (simp add: ex_order_defs)
  have h2: "status (orders ?d ! 0) \<in> {Delivered, Cancelled, Refunded}" by (simp add: ex_order_defs)
  have h3: "Pending \<noteq> status (orders ?d ! 0)" by (simp add: ex_order_defs)
  have h4: "(status (orders ?d ! 0), Pending) \<in>
             {(Delivered, Shipped), (Delivered, Cancelled), (Delivered, Refunded),
              (Cancelled, Pending), (Cancelled, Confirmed), (Cancelled, Processing),
              (Cancelled, Refunded),
              (Refunded, Shipped), (Refunded, Delivered), (Refunded, Cancelled)}"
    by (simp add: ex_order_defs)
  have h5: "order_invalid_paths (orders ?d ! 0) = []"
    by (simp add: ex_order_defs order_schema_defs)
  have l1: "length ([] :: string) \<le> 200" by simp
  have l2: "200 < length (replicate 201 CHR ''x'')" by simp
  from updateOrderStatus_from_terminal[OF h1 h2 h3 h5, of "[]" 50] h4 l1
  have first: "\<exists>ord' d'. updateOrderStatus 0 ''pending'' [] 50 ?d = (Inr ord', d')
          \<and> status (orders d' ! 0) = Pending"
    by auto
  from updateOrderStatus_from_terminal[OF h1 h2 h3 h5, of "replicate 201 CHR ''x''" 50] h4 l2
  have second: "\<exists>paths. updateOrderStatus 0 ''pending'' (replicate 201 CHR ''x'') 50 ?d
                = (Inl (MongooseValidationError paths), ?d)"
    by auto
  from h1 h2 h3 h5 first second show ?thesis by blast
qed

text \<open>The claim as written lets no status follow a terminal one. A delivered order is
  set to shipped: the request is accepted and the order is shipped again.\<close>

theorem updateOrderStatus_delivered_to_shipped:
  "\<not> isl (fst (updateOrderStatus 0 ''shipped'' [] 50 (db_order Delivered PayCompleted (Some 5))))
   \<and> map status (orders (snd (updateOrderStatus 0 ''shipped'' [] 50
                                 (db_order Delivered PayCompleted (Some 5))))) = [Shipped]"
  by (simp add: updateOrderStatus_def parse_status_def validStatuses_def transition_forbidden_def
        updateStatus_def updateStatus_assign_def order_schema_defs ex_order_defs Let_def)


subsection \<open>Order lines and the cart\<close>

text \<open>\<open>toOrderItems\<close> does copy the cart's lines with their price snapshots; no
  controller calls it.\<close>

lemma toOrderItems_copies_snapshot:
  "toOrderItems its = Inr ois \<Longrightarrow>
     list_all2 (\<lambda>ci oi. depopulate (ci_product ci) = Some (coi_product oi)
                  \<and> coi_quantity oi = ci_quantity ci \<and> coi_price oi = ci_price ci
                  \<and> coi_total oi = ci_price ci * of_int (ci_quantity ci)) its ois"
proof (induction its arbitrary: ois)
  case Nil
  then show ?case by simp
next
  case (Cons a its)
  then show ?case by (auto split: option.splits sum.splits)
qed



subsection \<open>Adding to the cart\<close>

lemma round2_int: "round2 (of_int n) = of_int n"
  by (simp add: round2_def Math_round_def floor_eq_iff)

lemma round2_numeral: "round2 (numeral k) = numeral k"
  using round2_int[of "numeral k"] by simp

lemmas cart_schema_defs = cart_invalid_paths_def cart_item_invalid_paths_def

text \<open>
  Claim C9, as amended. An add-to-cart request whose own quantity is below 1 or above 99
  is refused by \<open>validateAddToCart\<close> ("Quantity must be between 1 and 99") before the
  controller runs, and the database, so the cart, is left unchanged; in particular,
  adding 100 of a product to an empty cart fails and the cart remains empty.
\<close>

theorem add_to_cart_quantity_rule:
  assumes "q < 1 \<or> 99 < q"
  shows "post_cart_add usr productId (Some q) d
           = (Inl (ValidationFailed [''Quantity must be between 1 and 99'']), d)"
  using assms by (auto simp add: post_cart_add_def validateAddToCart_def)

text \<open>User \<open>u1\<close> has no cart and asks for 100 Widgets: the request is refused and there
  is still no cart.\<close>

theorem add_to_cart_quantity_rule_witness:
  "((100::int) < 1 \<or> 99 < (100::int))
   \<and> carts (db_widget 10 500) ''u1'' = None
   \<and> post_cart_add ex_usr ''p1'' (Some 100) (db_widget 10 500)
       = (Inl (ValidationFailed [''Quantity must be between 1 and 99'']), db_widget 10 500)"
proof -
  have h: "(100::int) < 1 \<or> 99 < (100::int)" by simp
  have c: "carts (db_widget 10 500) ''u1'' = None" by (simp add: ex_defs)
  from add_to_cart_quantity_rule[OF h, of ex_usr "''p1''" "db_widget 10 500"] h c
  show ?thesis by blast
qed

text \<open>The claim as written makes \<open>addItem\<close> fail when the merged quantity passes 99. A
  cart holds 60 Widgets and \<open>addItem\<close> is called with 60 more: the call succeeds and the
  line, in memory and as stored, holds 120.\<close>

theorem addItem_merge_exceeds_99:
  "addItem ''u1'' ''p1'' 60 10 cart_60 db_cart_60
     = Inr (\<lparr> c_items = [\<lparr> ci_product = ObjectId ''p1'', ci_quantity = 120, ci_price = 10 \<rparr>],
              c_totalAmount = 1200, c_totalItems = 120 \<rparr>,
            db_cart_60\<lparr> carts := [''u1'' \<mapsto>
              \<lparr> c_items = [\<lparr> ci_product = ''p1'', ci_quantity = 120, ci_price = 10 \<rparr>],
                c_totalAmount = 1200, c_totalItems = 120 \<rparr>] \<rparr>)"
  by (simp add: addItem_def cart_60_def db_cart_60_def cart_save_def cart_schema_defs
        cart_calculateTotals_def Let_def round2_numeral)

text \<open>
  Through the route the request for 60 more Widgets is accepted as well. The controller
  loads the cart with its product references populated, so the test
  \<open>item.product.toString() === productId.toString()\<close> compares the dump of a document
  with an id and finds no line to merge with: a second line of 60 is stored.
\<close>

lemma post_cart_add_second_line:
  "\<not> isl (fst (post_cart_add ex_usr ''p1'' (Some 60) db_cart_60))
   \<and> map_option (map ci_quantity \<circ> c_items)
       (carts (snd (post_cart_add ex_usr ''p1'' (Some 60) db_cart_60)) ''u1'') = Some [60, 60]"
  by (simp add: post_cart_add_def validateAddToCart_def addToCart_def findOrCreateCart_def
        findByUser_def populate_cart_def populate_def addItem_def cart_save_def cart_schema_defs
        cart_calculateTotals_def db_cart_60_def ex_defs Let_def round2_numeral)

text \<open>The schema of the cart bounds a line from below only: \<open>addItem\<close> with a quantity
  that takes the line below 1 fails the validation of the save, and nothing is written.\<close>

lemma addItem_below_one:
  "addItem ''u1'' ''p1'' (- 70) 10 cart_60 db_cart_60
     = Inl (MongooseValidationError [''items.quantity'', ''totalAmount'', ''totalItems''])"
  by (simp add: addItem_def cart_60_def db_cart_60_def cart_save_def cart_schema_defs
        cart_calculateTotals_def Let_def round2_def Math_round_def floor_eq_iff)


subsection \<open>Reading the cart\<close>

lemmas cart_defs = getCart_def findByUser_def populate_cart_def populate_def validateItems_def
  cart_save_def cart_invalid_paths_def cart_item_invalid_paths_def cart_calculateTotals_def
  getPopulatedCart_def Let_def

text \<open>A cart without a \<open>null\<close> reference can be written.\<close>

lemma depopulate_items_no_Null:
  "\<forall>x \<in> set its. ci_product x \<noteq> Null \<Longrightarrow>
     \<exists>ids. depopulate_items its = Some ids
         \<and> list_all2 (\<lambda>x y. depopulate (ci_product x) = Some (ci_product y)
                        \<and> ci_quantity y = ci_quantity x \<and> ci_price y = ci_price x) its ids"
proof (induction its)
  case Nil
  then show ?case by simp
next
  case (Cons a its)
  then obtain ids where ids: "depopulate_items its = Some ids"
    "list_all2 (\<lambda>x y. depopulate (ci_product x) = Some (ci_product y)
                        \<and> ci_quantity y = ci_quantity x \<and> ci_price y = ci_price x) its ids"
    by auto
  from Cons.prems obtain i where "depopulate (ci_product a) = Some i"
    by (cases "ci_product a") auto
  with ids show ?case by simp
qed

lemma toString_error: "toString r = Inl e \<Longrightarrow> e = TypeError"
  by (cases r) auto

lemma some_error_matches_error: "some_error_matches errs item = Inl e \<Longrightarrow> e = TypeError"
proof (induction errs)
  case Nil
  then show ?case by simp
next
  case (Cons a errs)
  then show ?case by (auto split: sum.splits if_splits dest: toString_error)
qed

lemma some_error_matches_Null:
  "errs \<noteq> [] \<Longrightarrow> ci_product item = Null \<Longrightarrow> some_error_matches errs item = Inl TypeError"
  by (cases errs) (auto split: sum.splits dest: toString_error)

text \<open>With an error on the list and a \<open>null\<close> reference among the lines, the filter throws.\<close>

lemma filter_valid_Null:
  "errs \<noteq> [] \<Longrightarrow> item \<in> set its \<Longrightarrow> ci_product item = Null
     \<Longrightarrow> filter_valid errs its = Inl TypeError"
proof (induction its)
  case Nil
  then show ?case by simp
next
  case (Cons a its)
  show ?case
  proof (cases "a = item")
    case True
    with Cons.prems show ?thesis by (simp add: some_error_matches_Null)
  next
    case False
    with Cons have rest: "filter_valid errs its = Inl TypeError" by simp
    show ?thesis
    proof (cases "some_error_matches errs a")
      case (Inl e)
      then show ?thesis using some_error_matches_error[OF Inl] by simp
    next
      case (Inr m)
      with rest show ?thesis by simp
    qed
  qed
qed

text \<open>The validation loop keeps the references of the lines, and a line whose product
  is not found leaves an error on the list.\<close>

lemma validateItems_loop_refs:
  "validateItems_loop ps its done errs = (done', errs') \<Longrightarrow>
     map ci_product done' = map ci_product done @ map ci_product its
   \<and> ((\<exists>it \<in> set its. findById_ref ps (ci_product it) = None) \<or> errs \<noteq> [] \<longrightarrow> errs' \<noteq> [])"
proof (induction its arbitrary: "done" errs)
  case Nil
  then show ?case by auto
next
  case (Cons a its)
  show ?case
  proof (cases "findById_ref ps (ci_product a)")
    case None
    with Cons.prems have "validateItems_loop ps its (done @ [a])
            (errs @ [\<lparr> ve_productId = ci_product a, ve_productName = None,
                       ve_error = ProductNotFound \<rparr>]) = (done', errs')" by simp
    from Cons.IH[OF this] show ?thesis by simp
  next
    case (Some p)
    with Cons.prems Cons.IH show ?thesis
      by (auto split: if_splits)
  qed
qed

text \<open>Whenever the stored cart has a line whose product has no document, the read
  throws a TypeError and writes nothing.\<close>

lemma getCart_dangling_reference:
  assumes "carts d (u_id usr) = Some c"
    and "it \<in> set (c_items c)"
    and "products d (ci_product it) = None"
  shows "getCart usr d = (Inl TypeError, d)"
proof -
  let ?cart = "populate_cart (products d) c"
  have f: "findByUser d (u_id usr) = Some ?cart" using assms(1) by (simp add: findByUser_def)
  obtain its' errs' where
    l: "validateItems_loop (products d) (c_items ?cart) [] [] = (its', errs')"
    by (cases "validateItems_loop (products d) (c_items ?cart) [] []") auto
  let ?n = "\<lparr> ci_product = Null, ci_quantity = ci_quantity it, ci_price = ci_price it \<rparr>"
  from assms(2,3) have n: "?n \<in> set (c_items ?cart)"
    by (force simp add: populate_cart_def populate_def)
  have "findById_ref (products d) (ci_product ?n) = None" by simp
  with n have ex: "\<exists>it \<in> set (c_items ?cart). findById_ref (products d) (ci_product it) = None"
    by blast
  from validateItems_loop_refs[OF l] ex have e: "errs' \<noteq> []"
    and r: "map ci_product its' = map ci_product (c_items ?cart)" by simp_all
  from n have "Null \<in> set (map ci_product (c_items ?cart))" by force
  with r have "Null \<in> set (map ci_product its')" by simp
  then obtain x where x: "x \<in> set its'" "ci_product x = Null" by auto
  from filter_valid_Null[OF e x] have fv: "filter_valid errs' its' = Inl TypeError" .
  from l e have v: "validateItems (u_id usr) ?cart d = Inr (?cart\<lparr> c_items := its' \<rparr>, errs', d)"
    by (simp add: validateItems_def)
  show ?thesis using f v e fv by (simp add: getCart_def)
qed

text \<open>
  Claim C10. Reading the cart should remove every line whose product is missing,
  inactive or short of stock, store the pruned cart and return it with warnings. For a
  line whose product is missing the read does not get that far. \<open>findByUser\<close> populates
  the references, the missing product's reference is \<open>null\<close>, \<open>validateItems\<close> records
  "Product not found" with that \<open>null\<close> as \<open>productId\<close>, and the filter of \<open>getCart\<close>
  calls \<open>toString()\<close> on it: the read throws a TypeError, the line stays in the stored
  cart, and no warning is returned.
\<close>

theorem getCart_missing_product_throws:
  "getCart ex_usr db_dangling = (Inl TypeError, db_dangling)"
  by (simp add: cart_defs db_dangling_def ex_defs)

text \<open>
  For an inactive product the read does what the claim says. The Gadget's line is
  removed, the stale price of the Widget's line is refreshed, the totals are recomputed,
  the cart is stored in that form and returned with the warning; the next read returns
  the same lines without a warning.
\<close>

lemma getCart_prunes_inactive:
  "carts (snd (getCart ex_usr db_inactive)) ''u1''
     = Some \<lparr> c_items = [\<lparr> ci_product = ''p1'', ci_quantity = 1, ci_price = 10 \<rparr>],
              c_totalAmount = 10, c_totalItems = 1 \<rparr>
   \<and> fst (getCart ex_usr db_inactive)
     = Inr \<lparr> r_cart = \<lparr> c_items = [\<lparr> ci_product = Doc ''p1'' (widget 10 5 True),
                                        ci_quantity = 1, ci_price = 10 \<rparr>],
                         c_totalAmount = 10, c_totalItems = 1 \<rparr>,
             r_warnings = Some [\<lparr> ve_productId = Doc ''p2'' (gadget 20 1 False),
                                  ve_productName = Some ''Gadget'',
                                  ve_error = ProductNoLongerAvailable \<rparr>] \<rparr>
   \<and> fst (getCart ex_usr (snd (getCart ex_usr db_inactive)))
     = Inr \<lparr> r_cart = \<lparr> c_items = [\<lparr> ci_product = Doc ''p1'' (widget 10 5 True),
                                        ci_quantity = 1, ci_price = 10 \<rparr>],
                         c_totalAmount = 10, c_totalItems = 1 \<rparr>,
             r_warnings = None \<rparr>"
  by (simp add: cart_defs db_inactive_def ex_defs round2_numeral)

text \<open>
  The general form of the read that prunes. When the stored cart and the prices of the
  catalog satisfy their schemas, every line of the cart has a product document and some
  line's product is inactive or short of stock, the read succeeds with warnings, the stored cart is replaced by one that has no line for that
  product (and no line for a product it did not have before), nothing else in the
  database changes, and the returned lines are the stored ones.
\<close>

lemma toString_inj: "toString r = Inr s \<Longrightarrow> toString r' = Inr s \<Longrightarrow> r = r'"
  by (cases r; cases r') auto

lemma toString_Inr: "r \<noteq> Null \<Longrightarrow> \<exists>s. toString r = Inr s"
  by (cases r) auto

lemma some_error_matches_no_Null:
  "\<forall>e \<in> set errs. ve_productId e \<noteq> Null \<Longrightarrow> ci_product item \<noteq> Null \<Longrightarrow>
     some_error_matches errs item = Inr (ci_product item \<in> ve_productId ` set errs)"
proof (induction errs)
  case Nil
  then show ?case by simp
next
  case (Cons a errs)
  from Cons.prems obtain s1 where s1: "toString (ve_productId a) = Inr s1"
    using toString_Inr[of "ve_productId a"] by auto
  from Cons.prems obtain s2 where s2: "toString (ci_product item) = Inr s2"
    using toString_Inr[of "ci_product item"] by auto
  show ?case
  proof (cases "s1 = s2")
    case True
    with s1 s2 have "ve_productId a = ci_product item" by (auto dest: toString_inj)
    with s1 s2 True show ?thesis by simp
  next
    case False
    with s1 s2 have "ve_productId a \<noteq> ci_product item" by auto
    with s1 s2 False Cons show ?thesis by auto
  qed
qed

lemma filter_valid_no_Null:
  "\<forall>e \<in> set errs. ve_productId e \<noteq> Null \<Longrightarrow> \<forall>x \<in> set its. ci_product x \<noteq> Null \<Longrightarrow>
     filter_valid errs its = Inr (filter (\<lambda>x. ci_product x \<notin> ve_productId ` set errs) its)"
proof (induction its)
  case Nil
  then show ?case by simp
next
  case (Cons a its)
  then show ?case by (simp add: some_error_matches_no_Null)
qed

lemma validateItems_loop_errors:
  "validateItems_loop ps its done errs = (done', errs') \<Longrightarrow>
     ve_productId ` set errs' = ve_productId ` set errs \<union>
       ci_product ` {x \<in> set its. case findById_ref ps (ci_product x) of
                                     None \<Rightarrow> True
                                   | Some p \<Rightarrow> \<not> isActive p \<or> stock p < ci_quantity x}"
proof (induction its arbitrary: "done" errs)
  case Nil
  then show ?case by simp
next
  case (Cons a its)
  show ?case
  proof (cases "findById_ref ps (ci_product a)")
    case None
    with Cons.prems have "validateItems_loop ps its (done @ [a])
            (errs @ [\<lparr> ve_productId = ci_product a, ve_productName = None,
                       ve_error = ProductNotFound \<rparr>]) = (done', errs')" by simp
    from Cons.IH[OF this] None show ?thesis by auto
  next
    case (Some p)
    show ?thesis
    proof (cases "\<not> isActive p")
      case True
      with Some Cons.prems have "validateItems_loop ps its (done @ [a])
            (errs @ [\<lparr> ve_productId = ci_product a, ve_productName = Some (name p),
                       ve_error = ProductNoLongerAvailable \<rparr>]) = (done', errs')" by simp
      from Cons.IH[OF this] Some True show ?thesis by auto
    next
      case act: False
      show ?thesis
      proof (cases "stock p < ci_quantity a")
        case True
        with Some act Cons.prems have "validateItems_loop ps its (done @ [a])
            (errs @ [\<lparr> ve_productId = ci_product a, ve_productName = Some (name p),
                       ve_error = InsufficientStock (stock p) (ci_quantity a) \<rparr>]) = (done', errs')"
          by simp
        from Cons.IH[OF this] Some True show ?thesis by auto
      next
        case False
        with Some act Cons.prems obtain a' where
          "validateItems_loop ps its (done @ [a']) errs = (done', errs')"
          by (cases "ci_price a \<noteq> price p") auto
        from Cons.IH[OF this] Some act False show ?thesis by auto
      qed
    qed
  qed
qed


lemma cart_item_invalid_paths_Nil:
  "cart_item_invalid_paths it = [] \<longleftrightarrow>
     ci_product it \<noteq> Null \<and> 1 \<le> ci_quantity it \<and> 0 \<le> ci_price it"
  by (auto simp add: cart_item_invalid_paths_def)

text \<open>A cart satisfies the schema when none of the validators fails.\<close>

lemma cart_invalid_paths_Nil:
  "cart_invalid_paths c = [] \<longleftrightarrow>
     (\<forall>x \<in> set (c_items c). ci_product x \<noteq> Null \<and> 1 \<le> ci_quantity x \<and> 0 \<le> ci_price x)
   \<and> 0 \<le> c_totalAmount c \<and> 0 \<le> c_totalItems c"
  by (auto simp add: cart_invalid_paths_def cart_item_invalid_paths_Nil)

lemma findById_ref_Some: "findById_ref ps r = Some p \<Longrightarrow> \<exists>i. ps i = Some p"
  by (cases r) auto

text \<open>The validation loop keeps the quantities, and a price it refreshes is the
  product's.\<close>

lemma validateItems_loop_valid:
  "validateItems_loop ps its done errs = (done', errs') \<Longrightarrow>
     \<forall>x \<in> set done \<union> set its. 1 \<le> ci_quantity x \<and> 0 \<le> ci_price x \<Longrightarrow>
     \<forall>pid q. ps pid = Some q \<longrightarrow> 0 \<le> price q \<Longrightarrow>
     \<forall>x \<in> set done'. 1 \<le> ci_quantity x \<and> 0 \<le> ci_price x"
proof (induction its arbitrary: "done" errs)
  case Nil
  then show ?case by simp
next
  case (Cons a its)
  show ?case
  proof (cases "findById_ref ps (ci_product a)")
    case None
    with Cons.prems(1) have "validateItems_loop ps its (done @ [a])
            (errs @ [\<lparr> ve_productId = ci_product a, ve_productName = None,
                       ve_error = ProductNotFound \<rparr>]) = (done', errs')" by simp
    from Cons.IH[OF this _ Cons.prems(3)] Cons.prems(2) show ?thesis by simp
  next
    case (Some p)
    from findById_ref_Some[OF Some] Cons.prems(3) have pp: "0 \<le> price p" by blast
    from Some Cons.prems(1) obtain a' errs2 where
      r: "validateItems_loop ps its (done @ [a']) errs2 = (done', errs')"
      and a': "a' = a \<or> a' = a\<lparr> ci_price := price p \<rparr>"
      by (auto split: if_splits)
    from a' pp Cons.prems(2) have "1 \<le> ci_quantity a' \<and> 0 \<le> ci_price a'" by auto
    with Cons.prems(2) have "\<forall>x \<in> set (done @ [a']) \<union> set its. 1 \<le> ci_quantity x \<and> 0 \<le> ci_price x"
      by auto
    from Cons.IH[OF r this Cons.prems(3)] show ?thesis .
  qed
qed

lemma list_all2_right_in:
  "list_all2 R xs ys \<Longrightarrow> y \<in> set ys \<Longrightarrow> \<exists>x \<in> set xs. R x y"
  by (induction rule: list_all2_induct) auto

lemma populate_cart_refs:
  assumes "\<forall>x \<in> set (c_items c). products d (ci_product x) \<noteq> None"
  shows "\<forall>y \<in> set (c_items (populate_cart (products d) c)).
           \<exists>i p. ci_product y = Doc i p \<and> products d i = Some p
                \<and> (\<exists>x \<in> set (c_items c). ci_product x = i \<and> ci_quantity x = ci_quantity y)"
  using assms by (auto simp add: populate_cart_def populate_def split: option.splits)

lemma getCart_prunes:
  assumes c: "carts d (u_id usr) = Some c"
    and ex: "\<forall>x \<in> set (c_items c). products d (ci_product x) \<noteq> None"
    and it: "it \<in> set (c_items c)"
    and p: "products d (ci_product it) = Some p"
    and bad: "\<not> isActive p \<or> stock p < ci_quantity it"
    and val: "\<forall>x \<in> set (c_items c). 1 \<le> ci_quantity x \<and> 0 \<le> ci_price x"
    and tot: "0 \<le> c_totalAmount c \<and> 0 \<le> c_totalItems c"
    and prices: "\<forall>pid q. products d pid = Some q \<longrightarrow> 0 \<le> price q"
  shows "\<exists>resp d' c' ws. getCart usr d = (Inr resp, d')
           \<and> r_warnings resp = Some ws \<and> ws \<noteq> []
           \<and> d' = d\<lparr> carts := (carts d)(u_id usr \<mapsto> c') \<rparr>
           \<and> ci_product it \<notin> ci_product ` set (c_items c')
           \<and> ci_product ` set (c_items c') \<subseteq> ci_product ` set (c_items c)
           \<and> map (depopulate \<circ> ci_product) (c_items (r_cart resp))
               = map (Some \<circ> ci_product) (c_items c')"
proof -
  let ?ps = "products d"
  let ?cart = "populate_cart ?ps c"
  have f: "findByUser d (u_id usr) = Some ?cart" using c by (simp add: findByUser_def)
  note refs = populate_cart_refs[OF ex]
  obtain its' errs' where
    l: "validateItems_loop ?ps (c_items ?cart) [] [] = (its', errs')"
    by (cases "validateItems_loop ?ps (c_items ?cart) [] []") auto
  from validateItems_loop_refs[OF l]
  have r: "map ci_product its' = map ci_product (c_items ?cart)" by simp
  then have rs: "ci_product ` set its' = ci_product ` set (c_items ?cart)"
    by (metis list.set_map)
  from validateItems_loop_errors[OF l]
  have E: "ve_productId ` set errs' =
       ci_product ` {x \<in> set (c_items ?cart). case findById_ref ?ps (ci_product x) of
                                     None \<Rightarrow> True
                                   | Some p \<Rightarrow> \<not> isActive p \<or> stock p < ci_quantity x}"
    by simp
  \<comment> \<open>the line of \<open>it\<close> in the loaded cart is invalid\<close>
  let ?y = "\<lparr> ci_product = Doc (ci_product it) p, ci_quantity = ci_quantity it,
               ci_price = ci_price it \<rparr>"
  from it p have y: "?y \<in> set (c_items ?cart)"
    by (force simp add: populate_cart_def populate_def)
  from y p bad have inE: "Doc (ci_product it) p \<in> ve_productId ` set errs'"
    unfolding E by force
  then have ne: "errs' \<noteq> []" by auto
  from E refs have eN: "\<forall>e \<in> set errs'. ve_productId e \<noteq> Null" by force
  from rs refs have iN: "\<forall>x \<in> set its'. ci_product x \<noteq> Null" by force
  let ?kept = "filter (\<lambda>x. ci_product x \<notin> ve_productId ` set errs') its'"
  from filter_valid_no_Null[OF eN iN] have fv: "filter_valid errs' its' = Inr ?kept" .
  from iN have kN: "\<forall>x \<in> set ?kept. ci_product x \<noteq> Null" by simp
  from depopulate_items_no_Null[OF kN] obtain ids where
    ids: "depopulate_items ?kept = Some ids"
    and rel: "list_all2 (\<lambda>x y. depopulate (ci_product x) = Some (ci_product y)
                        \<and> ci_quantity y = ci_quantity x \<and> ci_price y = ci_price x) ?kept ids"
    by blast
  from l ne have v: "validateItems (u_id usr) ?cart d = Inr (?cart\<lparr> c_items := its' \<rparr>, errs', d)"
    by (simp add: validateItems_def)
  let ?c2 = "cart_calculateTotals (?cart\<lparr> c_items := ?kept \<rparr>)"
  let ?c' = "\<lparr> c_items = ids, c_totalAmount = c_totalAmount ?c2, c_totalItems = c_totalItems ?c2 \<rparr>"
  have i2: "c_items ?c2 = ?kept" by (simp add: cart_calculateTotals_def Let_def)
  from val have "\<forall>x \<in> set [] \<union> set (c_items ?cart). 1 \<le> ci_quantity x \<and> 0 \<le> ci_price x"
    by (auto simp add: populate_cart_def)
  from validateItems_loop_valid[OF l this prices]
  have qp: "\<forall>x \<in> set its'. 1 \<le> ci_quantity x \<and> 0 \<le> ci_price x" .
  from tot have "0 \<le> c_totalAmount ?cart \<and> 0 \<le> c_totalItems ?cart"
    by (simp add: populate_cart_def)
  with qp kN have ok: "cart_invalid_paths (?cart\<lparr> c_items := its', c_items := ?kept \<rparr>) = []"
    by (simp add: cart_invalid_paths_Nil)
  from ids i2 ok have sv: "cart_save (u_id usr) (?cart\<lparr> c_items := its', c_items := ?kept \<rparr>) d
      = Inr (?c2, d\<lparr> carts := (carts d)(u_id usr \<mapsto> ?c') \<rparr>)"
    by (simp add: cart_save_def Let_def)
  from f v ne fv sv have run: "getCart usr d =
      (Inr \<lparr> r_cart = getPopulatedCart (d\<lparr> carts := (carts d)(u_id usr \<mapsto> ?c') \<rparr>) ?c2,
             r_warnings = Some errs' \<rparr>,
       d\<lparr> carts := (carts d)(u_id usr \<mapsto> ?c') \<rparr>)"
    by (simp add: getCart_def)
  \<comment> \<open>the stored lines\<close>
  have sub: "ci_product ` set ids \<subseteq> ci_product ` set (c_items c)"
  proof
    fix i assume "i \<in> ci_product ` set ids"
    then obtain yy where yy: "yy \<in> set ids" "ci_product yy = i" by auto
    from list_all2_right_in[OF rel yy(1)] yy(2)
    obtain x where x: "x \<in> set ?kept" "depopulate (ci_product x) = Some i" by auto
    from x(1) rs have "ci_product x \<in> ci_product ` set (c_items ?cart)" by auto
    with refs x(2) show "i \<in> ci_product ` set (c_items c)" by force
  qed
  have notin: "ci_product it \<notin> ci_product ` set ids"
  proof
    assume "ci_product it \<in> ci_product ` set ids"
    then obtain yy where yy: "yy \<in> set ids" "ci_product yy = ci_product it" by auto
    from list_all2_right_in[OF rel yy(1)] yy(2)
    obtain x where x: "x \<in> set ?kept" "depopulate (ci_product x) = Some (ci_product it)"
      by auto
    from x(1) rs have "ci_product x \<in> ci_product ` set (c_items ?cart)" by auto
    with refs obtain j q where jq: "ci_product x = Doc j q" "products d j = Some q" by force
    with x(2) p have "ci_product x = Doc (ci_product it) p" by simp
    with inE x(1) show False by simp
  qed
  have resp: "map (depopulate \<circ> ci_product)
        (c_items (getPopulatedCart (d\<lparr> carts := (carts d)(u_id usr \<mapsto> ?c') \<rparr>) ?c2))
      = map (Some \<circ> ci_product) ids"
  proof -
    have "\<forall>x \<in> set ?kept. \<exists>j q. ci_product x = Doc j q \<and> products d j = Some q"
    proof
      fix x assume "x \<in> set ?kept"
      with rs have "ci_product x \<in> ci_product ` set (c_items ?cart)" by auto
      with refs show "\<exists>j q. ci_product x = Doc j q \<and> products d j = Some q" by force
    qed
    then have "map (depopulate \<circ> ci_product)
        (c_items (getPopulatedCart (d\<lparr> carts := (carts d)(u_id usr \<mapsto> ?c') \<rparr>) ?c2))
        = map (depopulate \<circ> ci_product) ?kept"
      unfolding getPopulatedCart_def i2 by (auto simp add: populate_def)
    also from rel have "\<dots> = map (Some \<circ> ci_product) ids"
      by (induction rule: list_all2_induct) auto
    finally show ?thesis .
  qed
  let ?d' = "d\<lparr> carts := (carts d)(u_id usr \<mapsto> ?c') \<rparr>"
  let ?resp = "\<lparr> r_cart = getPopulatedCart ?d' ?c2, r_warnings = Some errs' \<rparr>"
  have "getCart usr d = (Inr ?resp, ?d')
      \<and> r_warnings ?resp = Some errs' \<and> errs' \<noteq> []
      \<and> ?d' = d\<lparr> carts := (carts d)(u_id usr \<mapsto> ?c') \<rparr>
      \<and> ci_product it \<notin> ci_product ` set (c_items ?c')
      \<and> ci_product ` set (c_items ?c') \<subseteq> ci_product ` set (c_items c)
      \<and> map (depopulate \<circ> ci_product) (c_items (r_cart ?resp))
               = map (Some \<circ> ci_product) (c_items ?c')"
    using run ne sub notin resp by simp
  then show ?thesis
    by (intro exI[of _ ?resp] exI[of _ ?d'] exI[of _ ?c'] exI[of _ errs'])
qed

subsection \<open>Stock over sequences of requests\<close>









subsection \<open>Further facts on status changes\<close>

text \<open>The other two writers of the order status never take a forbidden transition: the
  model's \<open>cancelOrder\<close> leads to cancelled, and not from a terminal status;
  \<open>updatePaymentStatus\<close> leads from pending to confirmed or nowhere.\<close>

lemma order_cancelOrder_transition:
  assumes "order_cancelOrder now reason ord = Inr ord'"
  shows "\<not> transition_forbidden (status ord) (status ord')"
proof -
  from assms have ok: "status ord \<notin> {Delivered, Cancelled, Refunded}"
    by (auto simp add: order_cancelOrder_def split: if_splits)
  with assms have "status ord' = Cancelled"
    by (auto simp add: order_cancelOrder_def Let_def order_validate_def split: if_splits)
  with ok show ?thesis
    by (cases "status ord") (simp_all add: transition_forbidden_def)
qed

lemma updatePaymentStatus_transition:
  "status (updatePaymentStatus now st tid paid ord) \<noteq> status ord \<Longrightarrow>
     \<not> transition_forbidden (status ord) (status (updatePaymentStatus now st tid paid ord))"
  by (cases "status ord")
     (auto simp add: updatePaymentStatus_def updateStatus_assign_def Let_def transition_forbidden_def
           split: if_splits option.splits)


end
